theory Spec2Isabelle
  imports Main "HOL-Library.Char_ord" "HOL-Library.List_Lexorder"
begin

section \<open>Go values shared by the model\<close>

text \<open>
  Strings are byte lists, compared bytewise as \<^verbatim>\<open>strings.Compare\<close> does (the
  lexicographic order of \<open>List_Lexorder\<close> over the byte order of \<open>Char_ord\<close>).
  A Go \<^verbatim>\<open>error\<close> is either the sentinel \<^verbatim>\<open>io.EOF\<close> or an error carrying a message;
  a nil error is \<open>None\<close> of \<open>error option\<close>. An object hash is represented by its
  hexadecimal text.
\<close>

type_synonym hash = string

datatype error = EOF | Error string

fun error_string :: "error \<Rightarrow> string" where
  "error_string EOF = ''EOF''"
| "error_string (Error msg) = msg"

section \<open>References (smithy.go, lines 114-168)\<close>

record Reference =
  RefName :: string
  RefHash :: hash

text \<open>
  A \<^verbatim>\<open>storer.ReferenceIter\<close> is the sequence of results its \<^verbatim>\<open>Next\<close> returns: a
  reference (\<open>Inr\<close>) or an error (\<open>Inl\<close>). Past the end of the sequence \<^verbatim>\<open>Next\<close>
  returns \<^verbatim>\<open>io.EOF\<close>.
\<close>

type_synonym ReferenceIter = "(error + Reference) list"

text \<open>
  \<^verbatim>\<open>sort.Sort(ReferenceByName(refs))\<close>: \<^verbatim>\<open>Less\<close> compares the full names with
  \<^verbatim>\<open>strings.Compare\<close>. Go's sort is not stable; the model takes the stable insertion
  sort, which returns the same list whenever the names are distinct.
\<close>

definition sort_ReferenceByName :: "Reference list \<Rightarrow> Reference list" where
  "sort_ReferenceByName refs = sort_key RefName refs"

text \<open>
  The loop of \<^verbatim>\<open>ReferenceCollector\<close>, with the slice \<^verbatim>\<open>refs\<close> as accumulator:
  \<^verbatim>\<open>io.EOF\<close> leaves the loop to the sort, any other error returns the references
  collected so far together with the error, before the sort is reached.
\<close>

fun ReferenceCollector_loop :: "ReferenceIter \<Rightarrow> Reference list \<Rightarrow> Reference list \<times> error option" where
  "ReferenceCollector_loop [] refs = (sort_ReferenceByName refs, None)"
| "ReferenceCollector_loop (Inl err # it) refs =
     (if err = EOF then (sort_ReferenceByName refs, None) else (refs, Some err))"
| "ReferenceCollector_loop (Inr b # it) refs = ReferenceCollector_loop it (refs @ [b])"

definition ReferenceCollector :: "ReferenceIter \<Rightarrow> Reference list \<times> error option" where
  "ReferenceCollector it = ReferenceCollector_loop it []"

section \<open>Commits and the repository handle of go-git\<close>

record Signature =
  SigName :: string
  SigEmail :: string
  SigWhen :: "string \<Rightarrow> string"

text \<open>
  \<open>SigWhen\<close> stands for the \<^verbatim>\<open>time.Time\<close> of a signature, given by what
  \<^verbatim>\<open>When.Format(layout)\<close> returns for each layout.
\<close>

record Commit =
  Hash :: hash
  Author :: Signature
  Message :: string
  ParentHashes :: "hash list"
  TreeHash :: hash

text \<open>
  A tree is given by its files: the path and the blob hash of every file below it.
  A change is a pair of optional entries; an empty \<open>From\<close> side is an addition, an
  empty \<open>To\<close> side a deletion.
\<close>

type_synonym Tree = "(string \<times> hash) list"

record Change =
  From :: "(string \<times> hash) option"
  To :: "(string \<times> hash) option"

type_synonym CommitIter = "(error + Commit) list"

text \<open>
  What the handlers ask of a \<^verbatim>\<open>*git.Repository\<close> and of the objects read from it:
  every call that can fail in go-git returns a sum here. \<open>PatchString\<close> is
  \<^verbatim>\<open>from.Patch(to)\<close> followed by \<^verbatim>\<open>String()\<close>, \<open>StatsString\<close> is
  \<^verbatim>\<open>commit.Stats()\<close> followed by \<^verbatim>\<open>String()\<close>.
\<close>

record Repository =
  Branches :: "error + ReferenceIter"
  Tags :: "error + ReferenceIter"
  ResolveRevision :: "string \<Rightarrow> error + hash"
  CommitObject :: "hash \<Rightarrow> error + Commit"
  TreeObject :: "hash \<Rightarrow> error + Tree"
  Log :: "hash \<Rightarrow> error + CommitIter"
  PatchString :: "Commit \<Rightarrow> Commit \<Rightarrow> error + string"
  StatsString :: "Commit \<Rightarrow> error + string"

definition ListBranches :: "Repository \<Rightarrow> Reference list \<times> error option" where
  "ListBranches r = (case Branches r of Inl err \<Rightarrow> ([], Some err) | Inr it \<Rightarrow> ReferenceCollector it)"

definition ListTags :: "Repository \<Rightarrow> Reference list \<times> error option" where
  "ListTags r = (case Tags r of Inl err \<Rightarrow> ([], Some err) | Inr it \<Rightarrow> ReferenceCollector it)"

section \<open>The default branch (smithy.go, lines 213-232)\<close>

text \<open>
  \<^verbatim>\<open>ReferenceName.Short\<close> is go-git's, not a function of the source files. It starts
  from the whole name and runs \<^verbatim>\<open>fmt.Sscanf(name, rule, &res)\<close> for the rules
  \<^verbatim>\<open>refs/%s\<close>, \<^verbatim>\<open>refs/tags/%s\<close>, \<^verbatim>\<open>refs/heads/%s\<close>, \<^verbatim>\<open>refs/remotes/%s\<close> and
  \<^verbatim>\<open>refs/remotes/%s/HEAD\<close> in turn; every scan that reaches its \<^verbatim>\<open>%s\<close> overwrites the
  result. The verb \<^verbatim>\<open>%s\<close> of \<^verbatim>\<open>fmt\<close> reads runes, not bytes: it skips leading white
  space (a newline there is an error), fails at the end of the input, and takes the
  runes up to the next white space, writing each back in UTF-8. So the short name of a
  branch is cut at the first Unicode white space, and a byte that is not valid UTF-8
  comes back as the replacement character.

  \<open>DecodeRune\<close> and \<open>AppendRune\<close> are those of \<^verbatim>\<open>unicode/utf8\<close> (rune and width;
  the encoding of a rune), \<open>isSpace\<close> is the table of white space in \<^verbatim>\<open>fmt\<close>, and
  \<open>runes\<close> decodes a whole input. \<open>Sscanf_s\<close> is one scan, for the literal text in
  front of \<^verbatim>\<open>%s\<close>: the literal is ASCII, so it matches byte by byte. The text that
  follows \<^verbatim>\<open>%s\<close> in the last rule is matched after the result has been stored and
  does not change it.
\<close>

definition RuneError :: nat where
  "RuneError = 65533"

definition DecodeRune :: "string \<Rightarrow> nat \<times> nat" where
  "DecodeRune p =
     (case p of
        [] \<Rightarrow> (RuneError, 0)
      | c0 # rest \<Rightarrow>
          let p0 = (of_char c0 :: nat) in
          if p0 < 128 then (p0, 1)
          else if p0 < 194 \<or> 244 < p0 then (RuneError, 1)
          else
            let sz = (if p0 < 224 then 2 else if p0 < 240 then 3 else 4 :: nat);
                lo = (if p0 = 224 then 160 else if p0 = 240 then 144 else 128 :: nat);
                hi = (if p0 = 237 then 159 else if p0 = 244 then 143 else 191 :: nat)
            in if length p < sz then (RuneError, 1)
               else
                 let b1 = (of_char (p ! 1) :: nat) in
                 if b1 < lo \<or> hi < b1 then (RuneError, 1)
                 else if sz \<le> 2 then ((p0 mod 32) * 64 + b1 mod 64, 2)
                 else
                   let b2 = (of_char (p ! 2) :: nat) in
                   if b2 < 128 \<or> 191 < b2 then (RuneError, 1)
                   else if sz \<le> 3 then ((p0 mod 16) * 4096 + (b1 mod 64) * 64 + b2 mod 64, 3)
                   else
                     let b3 = (of_char (p ! 3) :: nat) in
                     if b3 < 128 \<or> 191 < b3 then (RuneError, 1)
                     else ((p0 mod 8) * 262144 + (b1 mod 64) * 4096 + (b2 mod 64) * 64 + b3 mod 64, 4))"

definition AppendRune :: "nat \<Rightarrow> string" where
  "AppendRune r0 =
     (let r = (if (55296 \<le> r0 \<and> r0 \<le> 57343) \<or> 1114111 < r0 then RuneError else r0) in
      if r < 128 then [char_of r]
      else if r < 2048 then [char_of (192 + r div 64), char_of (128 + r mod 64)]
      else if r < 65536 then
        [char_of (224 + r div 4096), char_of (128 + r div 64 mod 64), char_of (128 + r mod 64)]
      else
        [char_of (240 + r div 262144), char_of (128 + r div 4096 mod 64),
         char_of (128 + r div 64 mod 64), char_of (128 + r mod 64)])"

text \<open>
  White space: U+0009 to U+000D, U+0020, U+0085, U+00A0, U+1680, U+2000 to U+200A, U+2028,
  U+2029, U+202F, U+205F and U+3000.
\<close>

definition isSpace :: "nat \<Rightarrow> bool" where
  "isSpace r =
     ((9 \<le> r \<and> r \<le> 13) \<or> r = 32 \<or> r = 133 \<or> r = 160 \<or> r = 5760 \<or>
      (8192 \<le> r \<and> r \<le> 8202) \<or> r = 8232 \<or> r = 8233 \<or> r = 8239 \<or> r = 8287 \<or> r = 12288)"

text \<open>
  The width of a rune decoded from a non-empty input is at least 1, so dropping
  \<open>w - 1\<close> bytes after the first is dropping the rune.
\<close>

fun runes :: "string \<Rightarrow> nat list" where
  "runes [] = []"
| "runes (c # p) = (case DecodeRune (c # p) of (r, w) \<Rightarrow> r # runes (drop (w - 1) p))"

declare runes.simps(2) [simp del]

text \<open>
  \<^verbatim>\<open>SkipSpace\<close> of the scanner: a carriage return in front of a newline is passed over,
  the newline itself is an error (\<open>None\<close>).
\<close>

fun SkipSpace :: "nat list \<Rightarrow> nat list option" where
  "SkipSpace [] = Some []"
| "SkipSpace (r # rs) =
     (if r = 13 \<and> (case rs of [] \<Rightarrow> False | r' # rs' \<Rightarrow> r' = 10) then SkipSpace rs
      else if r = 10 then None
      else if isSpace r then SkipSpace rs
      else Some (r # rs))"

definition Sscanf_s :: "string \<Rightarrow> string \<Rightarrow> string option" where
  "Sscanf_s literal s =
     (if take (length literal) s = literal then
        (case SkipSpace (runes (drop (length literal) s)) of
           None \<Rightarrow> None
         | Some [] \<Rightarrow> None
         | Some (r # rs) \<Rightarrow>
             Some (concat (map AppendRune (takeWhile (\<lambda>r. \<not> isSpace r) (r # rs)))))
      else None)"

definition RefRevParseRules :: "string list" where
  "RefRevParseRules =
     [''refs/'', ''refs/tags/'', ''refs/heads/'', ''refs/remotes/'', ''refs/remotes/'']"

definition Short :: "string \<Rightarrow> string" where
  "Short s =
     foldl (\<lambda>res literal. case Sscanf_s literal s of None \<Rightarrow> res | Some v \<Rightarrow> v)
       s RefRevParseRules"

text \<open>
  The \<^verbatim>\<open>for ... range branches\<close> loop: the short name of the first branch, in the
  order of the slice, that is called main or master; the empty string when there is
  none.
\<close>

fun findMainBranch_loop :: "Reference list \<Rightarrow> string" where
  "findMainBranch_loop [] = ''''"
| "findMainBranch_loop (br # brs) =
     (if Short (RefName br) = ''main'' \<or> Short (RefName br) = ''master''
      then Short (RefName br) else findMainBranch_loop brs)"

text \<open>
  \<^verbatim>\<open>findMainBranch\<close> returns the triple (branch, revision, err). The error of
  \<^verbatim>\<open>ListBranches\<close> is discarded (\<^verbatim>\<open>branches, _ := ListBranches(repo)\<close>).
  The revision that go-git returns next to an error is read by no caller; the model
  leaves it out.
\<close>

definition findMainBranch :: "Repository \<Rightarrow> string \<times> hash option \<times> error option" where
  "findMainBranch repo =
     (let branches = fst (ListBranches repo) in
      if length branches = 0 then ('''', None, Some (Error ''no branches found''))
      else
        let found = findMainBranch_loop branches;
            branch = (if found = '''' then Short (RefName (branches ! 0)) else found)
        in (case ResolveRevision repo branch of
              Inl err \<Rightarrow> (branch, None, Some err)
            | Inr revision \<Rightarrow> (branch, Some revision, None)))"

section \<open>Changes of a commit (smithy.go, lines 234-253)\<close>

text \<open>
  \<^verbatim>\<open>commit.Parent(i)\<close> of go-git fails with its parent-not-found error when the
  commit has no parent number \<open>i\<close>, and reads the parent from the object store
  otherwise; \<^verbatim>\<open>commit.Tree()\<close> reads the tree of the commit from the store.
\<close>

definition Parent :: "Repository \<Rightarrow> Commit \<Rightarrow> nat \<Rightarrow> error + Commit" where
  "Parent r c i =
     (if length (ParentHashes c) = 0 \<or> i > length (ParentHashes c) - 1
      then Inl (Error ''commit parent not found'')
      else CommitObject r (ParentHashes c ! i))"

definition NumParents :: "Commit \<Rightarrow> nat" where
  "NumParents c = length (ParentHashes c)"

definition CommitTree :: "Repository \<Rightarrow> Commit \<Rightarrow> error + Tree" where
  "CommitTree r c = TreeObject r (TreeHash c)"

text \<open>
  Modelled from the spec: \<^verbatim>\<open>object.DiffTree\<close> is go-git's, not a function of the
  source files. The spec describes it as a structural comparison of two trees that
  emits one change for each blob that differs by content hash or by existence, and go-git
  reads a nil tree as the empty tree. The model lists the deletions and modifications
  in the order of the first tree, then the additions in the order of the second.
\<close>

definition DiffTree :: "Tree option \<Rightarrow> Tree option \<Rightarrow> Change list" where
  "DiffTree a b =
     (let from = (case a of None \<Rightarrow> [] | Some t \<Rightarrow> t);
          to = (case b of None \<Rightarrow> [] | Some t \<Rightarrow> t)
      in concat (map (\<lambda>(p, h). case map_of to p of
                          None \<Rightarrow> [\<lparr>From = Some (p, h), To = None\<rparr>]
                        | Some h' \<Rightarrow> if h = h' then []
                                     else [\<lparr>From = Some (p, h), To = Some (p, h')\<rparr>]) from)
         @ map (\<lambda>e. \<lparr>From = None, To = Some e\<rparr>)
             (filter (\<lambda>(p, h). map_of from p = None) to))"

text \<open>
  \<^verbatim>\<open>GetChanges\<close>: \<^verbatim>\<open>parentTree\<close> stays nil when \<^verbatim>\<open>commit.Parent(0)\<close> fails; an error
  of either \<^verbatim>\<open>Tree()\<close> call is returned.
\<close>

definition GetChanges :: "Repository \<Rightarrow> Commit \<Rightarrow> error + Change list" where
  "GetChanges r commit =
     (case (case Parent r commit 0 of
              Inl err \<Rightarrow> Inr None
            | Inr parent \<Rightarrow>
                (case CommitTree r parent of Inl err \<Rightarrow> Inl err | Inr t \<Rightarrow> Inr (Some t))) of
        Inl err \<Rightarrow> Inl err
      | Inr parentTree \<Rightarrow>
          (case CommitTree r commit of
             Inl err \<Rightarrow> Inl err
           | Inr currentTree \<Rightarrow> Inr (DiffTree parentTree (Some currentTree))))"

section \<open>The HTTP response and the ways a handler ends\<close>

text \<open>
  The \<^verbatim>\<open>http.ResponseWriter\<close> as the client sees it: the status line is written by
  the first \<^verbatim>\<open>WriteHeader\<close> or, with status 200, by the first \<^verbatim>\<open>Write\<close>; a later
  \<^verbatim>\<open>WriteHeader\<close> changes nothing, and a header set after the status line is not sent.
  Of \<^verbatim>\<open>http.Redirect\<close> the model keeps the \<^verbatim>\<open>Location\<close> header and the status.
\<close>

record ResponseWriter =
  ContentType :: "string option"
  Location :: "string option"
  Status :: "nat option"
  Body :: string

definition NewResponseWriter :: ResponseWriter where
  "NewResponseWriter = \<lparr>ContentType = None, Location = None, Status = None, Body = []\<rparr>"

definition WriteHeader :: "nat \<Rightarrow> ResponseWriter \<Rightarrow> ResponseWriter" where
  "WriteHeader code w = (if Status w = None then w\<lparr>Status := Some code\<rparr> else w)"

definition Write :: "string \<Rightarrow> ResponseWriter \<Rightarrow> ResponseWriter" where
  "Write bytes w = (WriteHeader 200 w)\<lparr>Body := Body w @ bytes\<rparr>"

definition SetContentType :: "string \<Rightarrow> ResponseWriter \<Rightarrow> ResponseWriter" where
  "SetContentType v w = (if Status w = None then w\<lparr>ContentType := Some v\<rparr> else w)"

definition Redirect :: "string \<Rightarrow> nat \<Rightarrow> ResponseWriter \<Rightarrow> ResponseWriter" where
  "Redirect url code w =
     WriteHeader code (if Status w = None then w\<lparr>Location := Some url\<rparr> else w)"

text \<open>
  A handler returns, panics (a nil dereference; \<^verbatim>\<open>net/http\<close> recovers the panic and
  drops the connection of that request) or ends the whole process (\<^verbatim>\<open>log.Fatal\<close>
  calls \<^verbatim>\<open>os.Exit(1)\<close>). Each carries the response written up to that point.
\<close>

datatype outcome = Returned ResponseWriter | Panicked ResponseWriter | Exited ResponseWriter

section \<open>The registry (smithy.go, lines 35-90)\<close>

record RepositoryWithName =
  Name :: string
  Path :: string
  Repository :: "Repository option"

record SmithyCommit =
  SCommit :: Commit
  Subject :: string
  ShortHash :: string

text \<open>
  \<^verbatim>\<open>H = map[string]interface{}\<close>, the data handed to a template, with the kinds of
  value the modelled handlers put into it.
\<close>

datatype Val = IntV int | StrV string | CommitsV "SmithyCommit list"

type_synonym H = "(string \<times> Val) list"

record Smithy =
  Root :: string
  Title :: string
  Description :: string
  repos :: "string \<rightharpoonup> RepositoryWithName"
  template :: "string \<Rightarrow> H \<Rightarrow> string"

text \<open>
  \<open>template\<close> is what \<^verbatim>\<open>sc.template.ExecuteTemplate\<close> writes for a template name and
  its data. What the process finds outside itself is the record \<open>World\<close>: the
  directory listing, \<^verbatim>\<open>git.PlainOpen\<close>, \<^verbatim>\<open>path.Join\<close>, and the \<^verbatim>\<open>git\<close> subprocess
  started for an argument vector and an optional standard input.
\<close>

record Subprocess =
  StdoutPipeErr :: "error option"
  StartErr :: "error option"
  Output :: string
  CopyErr :: "error option"

record World =
  ReadDir :: "string \<Rightarrow> error + string list"
  PlainOpen :: "string \<Rightarrow> error + Repository"
  PathJoin :: "string \<Rightarrow> string \<Rightarrow> string"
  Git :: "string list \<Rightarrow> string option \<Rightarrow> Subprocess"

text \<open>
  \<^verbatim>\<open>LoadAllRepositories\<close> assigns to the field \<^verbatim>\<open>sc.repos\<close> once per statement:
  first the fresh empty map, then one insertion for every directory entry that opens.
  \<open>LoadAllRepositories_loop\<close> lists the value of the field after each of the loop's
  insertions, \<open>LoadAllRepositories_states\<close> the values the field takes during the
  whole call (none when \<^verbatim>\<open>os.ReadDir\<close> fails and the field is left alone).
\<close>

fun LoadAllRepositories_loop ::
  "World \<Rightarrow> string \<Rightarrow> string list \<Rightarrow> (string \<rightharpoonup> RepositoryWithName) \<Rightarrow>
   (string \<rightharpoonup> RepositoryWithName) list" where
  "LoadAllRepositories_loop world root [] m = []"
| "LoadAllRepositories_loop world root (f # files) m =
     (let repoPath = PathJoin world root f in
      case PlainOpen world repoPath of
        Inl err \<Rightarrow> LoadAllRepositories_loop world root files m
      | Inr r \<Rightarrow>
          (let m' = m(f \<mapsto> \<lparr>Name = f, Path = repoPath, Repository = Some r\<rparr>)
           in m' # LoadAllRepositories_loop world root files m'))"

definition LoadAllRepositories_states ::
  "World \<Rightarrow> Smithy \<Rightarrow> (string \<rightharpoonup> RepositoryWithName) list" where
  "LoadAllRepositories_states world sc =
     (case ReadDir world (Root sc) of
        Inl err \<Rightarrow> []
      | Inr files \<Rightarrow> Map.empty # LoadAllRepositories_loop world (Root sc) files Map.empty)"

definition LoadAllRepositories :: "World \<Rightarrow> Smithy \<Rightarrow> Smithy \<times> error option" where
  "LoadAllRepositories world sc =
     (case ReadDir world (Root sc) of
        Inl err \<Rightarrow> (sc, Some err)
      | Inr files \<Rightarrow> (sc\<lparr>repos := last (LoadAllRepositories_states world sc)\<rparr>, None))"

definition zero_RepositoryWithName :: RepositoryWithName where
  "zero_RepositoryWithName = \<lparr>Name = [], Path = [], Repository = None\<rparr>"

definition FindRepo :: "Smithy \<Rightarrow> string \<Rightarrow> RepositoryWithName \<times> bool" where
  "FindRepo sc slug =
     (case repos sc slug of None \<Rightarrow> (zero_RepositoryWithName, False) | Some v \<Rightarrow> (v, True))"

section \<open>Rendering (part_000, lines 45-54)\<close>

definition Render :: "Smithy \<Rightarrow> ResponseWriter \<Rightarrow> string \<Rightarrow> H \<Rightarrow> ResponseWriter" where
  "Render sc w name data =
     (let w1 = SetContentType ''text/html; charset=utf-8'' w;
          out = template sc (name @ ''.html'') data
      in if out = [] then w1 else Write out w1)"

text \<open>
  \<^verbatim>\<open>sc.Error(w, err)\<close> calls \<^verbatim>\<open>err.Error()\<close>: on a nil error that is a nil
  dereference.
\<close>

definition Smithy_Error :: "Smithy \<Rightarrow> ResponseWriter \<Rightarrow> error option \<Rightarrow> outcome" where
  "Smithy_Error sc w err =
     (case err of
        None \<Rightarrow> Panicked w
      | Some e \<Rightarrow> Returned (Render sc w ''error'' [(''Error'', StrV (error_string e))]))"

text \<open>The map literal \<^verbatim>\<open>H{"Status": 404, "Error": msg}\<close> of the not-found pages.\<close>

definition NotFound :: "string \<Rightarrow> H" where
  "NotFound msg = [(''Status'', IntV 404), (''Error'', StrV msg)]"

text \<open>
  A request, as far as the handlers read it: the route parameters (\<^verbatim>\<open>GetParam\<close>; a
  missing key of the Go map reads as the empty string), the \<^verbatim>\<open>service\<close> query
  parameter, and what \<^verbatim>\<open>io.ReadAll(r.Body)\<close> returns.
\<close>

record Request =
  Params :: "string \<Rightarrow> string"
  QueryService :: string
  ReqBody :: "error + string"

definition GetParam :: "Request \<Rightarrow> string \<Rightarrow> string" where
  "GetParam r name = Params r name"

section \<open>The patch view (smithy.go, lines 280-347)\<close>

text \<open>
  \<^verbatim>\<open>plumbing.NewHash\<close> parses the hexadecimal text of a hash; the model keeps a hash
  as that text.
\<close>

definition NewHash :: "string \<Rightarrow> hash" where
  "NewHash s = s"

definition commitFormatDate :: string where
  "commitFormatDate = ''Mon, 2 Jan 2006 15:04:05 -0700''"

text \<open>
  Lines 335-346: the four header lines and the final \<^verbatim>\<open>Fprintf\<close> with the format
  \<^verbatim>\<open>"%s\n%s\n%s\n%s\n---\n%s\n%s"\<close> over commitHashStr, from, date, subject,
  stats.String() and patch.
\<close>

definition PatchView_envelope :: "Commit \<Rightarrow> string \<Rightarrow> string \<Rightarrow> string" where
  "PatchView_envelope commitObj stats patch =
     (let commitHashStr = ''From '' @ Hash commitObj @ '' Mon Sep 17 00:00:00 2001'';
          from = ''From: '' @ SigName (Author commitObj) @ '' <'' @ SigEmail (Author commitObj) @ ''>'';
          date = ''Date: '' @ SigWhen (Author commitObj) commitFormatDate;
          subject = ''Subject: [PATCH] '' @ Message commitObj
      in commitHashStr @ ''\<newline>'' @ from @ ''\<newline>'' @ date @ ''\<newline>'' @ subject @
         ''\<newline>---\<newline>'' @ stats @ ''\<newline>'' @ patch)"

text \<open>
  In the branch for a commit without parents, \<^verbatim>\<open>err\<close> is the variable assigned by
  \<^verbatim>\<open>CommitObject\<close> at line 302, which is nil once the check at line 303 has passed.
  A nil \<^verbatim>\<open>repo.Repository\<close> is dereferenced by the first call on it.
\<close>

definition PatchView :: "Smithy \<Rightarrow> Request \<Rightarrow> ResponseWriter \<Rightarrow> outcome" where
  "PatchView sc r w =
     (let repoName = GetParam r ''repo'';
          (repo, exists) = FindRepo sc repoName
      in if \<not> exists then Returned (Render sc w ''error'' (NotFound ''Repository not found''))
         else
           let commitID = GetParam r ''hash'' in
           if commitID = [] then Returned (Render sc w ''error'' (NotFound ''Commit not found''))
           else
             (case Repository repo of
                None \<Rightarrow> Panicked w
              | Some g \<Rightarrow>
                  (case CommitObject g (NewHash commitID) of
                     Inl err \<Rightarrow> Returned (Render sc w ''error'' (NotFound ''Repository not found''))
                   | Inr commitObj \<Rightarrow>
                       if NumParents commitObj = 0 then Smithy_Error sc w None
                       else
                         (case Parent g commitObj 0 of
                            Inl err \<Rightarrow>
                              Returned (Render sc w ''error'' [(''Error'', StrV (error_string err))])
                          | Inr parentCommit \<Rightarrow>
                              (case PatchString g parentCommit commitObj of
                                 Inl err \<Rightarrow>
                                   Returned (Render sc w ''error'' [(''Error'', StrV (error_string err))])
                               | Inr patch \<Rightarrow>
                                   (case StatsString g commitObj of
                                      Inl err \<Rightarrow> Smithy_Error sc w (Some err)
                                    | Inr stats \<Rightarrow>
                                        Returned (Write (PatchView_envelope commitObj stats patch) w)))))))"

section \<open>The log view (part_000, lines 325-388)\<close>

definition PAGE_SIZE :: nat where
  "PAGE_SIZE = 500"

text \<open>
  The loop of lines 366-381 with the number of iterations left: only \<^verbatim>\<open>io.EOF\<close> is
  tested, so after any other error the nil \<^verbatim>\<open>commit\<close> is dereferenced by
  \<^verbatim>\<open>commit.Message\<close> (\<open>None\<close>). \<^verbatim>\<open>lines[0]\<close> is the message up to its first newline;
  \<^verbatim>\<open>commit.Hash.String()\<close> has 40 digits, of which the first 8 are kept.
\<close>

definition mkSmithyCommit :: "Commit \<Rightarrow> SmithyCommit" where
  "mkSmithyCommit commit =
     \<lparr>SCommit = commit,
      Subject = takeWhile (\<lambda>c. c \<noteq> CHR ''\<newline>'') (Message commit),
      ShortHash = take 8 (Hash commit)\<rparr>"

fun LogView_loop :: "nat \<Rightarrow> CommitIter \<Rightarrow> SmithyCommit list \<Rightarrow> SmithyCommit list option" where
  "LogView_loop 0 cIter commits = Some commits"
| "LogView_loop (Suc n) [] commits = Some commits"
| "LogView_loop (Suc n) (Inl err # cIter) commits = (if err = EOF then Some commits else None)"
| "LogView_loop (Suc n) (Inr commit # cIter) commits =
     LogView_loop n cIter (commits @ [mkSmithyCommit commit])"

definition LogView :: "Smithy \<Rightarrow> Request \<Rightarrow> ResponseWriter \<Rightarrow> outcome" where
  "LogView sc r w =
     (let repoName = GetParam r ''repo'';
          (repo, exists) = FindRepo sc repoName
      in if \<not> exists then Returned (Render sc w ''error'' (NotFound ''Repository not found''))
         else
           (case Repository repo of
              None \<Rightarrow> Panicked w
            | Some g \<Rightarrow>
                let refName = GetParam r ''ref'' in
                if refName = [] then
                  (case findMainBranch g of
                     (defaultBranchName, revision, err) \<Rightarrow>
                       if err \<noteq> None
                       then Returned (Render sc w ''error'' (NotFound ''Repository not found''))
                       else Returned (Redirect (''/'' @ repoName @ ''/log/'' @ defaultBranchName) 302 w))
                else
                  (case ResolveRevision g refName of
                     Inl err \<Rightarrow> Returned (Render sc w ''error'' (NotFound ''Repository not found''))
                   | Inr revision \<Rightarrow>
                       (case Log g revision of
                          Inl err \<Rightarrow> Smithy_Error sc w (Some err)
                        | Inr cIter \<Rightarrow>
                            (case LogView_loop PAGE_SIZE cIter [] of
                               None \<Rightarrow> Panicked w
                             | Some commits \<Rightarrow>
                                 Returned (Render sc w ''log''
                                   [(''RepoName'', StrV repoName), (''RefName'', StrV refName),
                                    (''Commits'', CommitsV commits)]))))))"

section \<open>The Smart HTTP bridge (smithy.go, lines 349-375; part_000, lines 445-499)\<close>

record GitCommand =
  procInput :: "string option"
  args :: "string list"

text \<open>
  \<^verbatim>\<open>WriteGitToHttp\<close>: both failure branches call \<^verbatim>\<open>w.WriteHeader(404)\<close> and then
  \<^verbatim>\<open>log.Fatal\<close>, which ends the process before the \<^verbatim>\<open>return\<close> that follows it.
  \<open>Output\<close> is what \<^verbatim>\<open>io.Copy\<close> wrote to the response before it stopped.
\<close>

definition WriteGitToHttp :: "World \<Rightarrow> ResponseWriter \<Rightarrow> GitCommand \<Rightarrow> outcome" where
  "WriteGitToHttp world w gitCommand =
     (let cmd = Git world (args gitCommand) (procInput gitCommand) in
      case StdoutPipeErr cmd of
        Some err \<Rightarrow> Exited (WriteHeader 404 w)
      | None \<Rightarrow>
          (case StartErr cmd of
             Some err \<Rightarrow> Exited (WriteHeader 404 w)
           | None \<Rightarrow>
               (let w' = (if Output cmd = [] then w else Write (Output cmd) w) in
                case CopyErr cmd of Some err \<Rightarrow> Exited w' | None \<Rightarrow> Returned w')))"

definition offset :: nat where
  "offset = 5"

text \<open>
  \<^verbatim>\<open>strings.Replace(s, old, new, 1)\<close>: the first occurrence of \<open>old\<close> in \<open>s\<close> is
  replaced.
\<close>

fun strings_Replace1 :: "string \<Rightarrow> string \<Rightarrow> string \<Rightarrow> string" where
  "strings_Replace1 [] old new = (if old = [] then new else [])"
| "strings_Replace1 (c # s) old new =
     (if take (length old) (c # s) = old then new @ drop (length old) (c # s)
      else c # strings_Replace1 s old new)"

text \<open>
  The verb \<^verbatim>\<open>%.4x\<close> of \<^verbatim>\<open>fmt\<close> on a non-negative integer: lower-case hexadecimal
  digits, padded with zeros on the left to at least four digits.
\<close>

definition hexdigit :: "nat \<Rightarrow> char" where
  "hexdigit d = ''0123456789abcdef'' ! d"

fun hex :: "nat \<Rightarrow> string" where
  "hex n = (if n < 16 then [hexdigit n] else hex (n div 16) @ [hexdigit (n mod 16)])"

declare hex.simps [simp del]

definition Sprintf_04x :: "nat \<Rightarrow> string" where
  "Sprintf_04x n = replicate (4 - length (hex n)) CHR ''0'' @ hex n"

definition getInfoRefs :: "World \<Rightarrow> Smithy \<Rightarrow> Request \<Rightarrow> ResponseWriter \<Rightarrow> outcome" where
  "getInfoRefs world sc r w =
     (let repoName = GetParam r ''repo'';
          (repo, exists) = FindRepo sc repoName;
          repoPath = Path repo @ [];
          service = QueryService r;
          serviceName = strings_Replace1 service ''git-'' [];
          w1 = SetContentType (''application/x-git-'' @ serviceName @ ''-advertisement'') w;
          str = ''# service=git-'' @ serviceName;
          w2 = Write (Sprintf_04x (length str + offset) @ str @ ''\<newline>'') w1;
          w3 = Write ''0000'' w2
      in WriteGitToHttp world w3
           \<lparr>procInput = None,
            args = [serviceName, ''--stateless-rpc'', ''--advertise-refs'', repoPath]\<rparr>)"

definition uploadPack :: "World \<Rightarrow> Smithy \<Rightarrow> Request \<Rightarrow> ResponseWriter \<Rightarrow> outcome" where
  "uploadPack world sc r w =
     (let repoName = GetParam r ''repo'';
          (repo, exists) = FindRepo sc repoName;
          repoPath = Path repo @ [];
          w1 = SetContentType ''application/x-git-upload-pack-result'' w
      in case ReqBody r of
           Inl err \<Rightarrow> Exited (WriteHeader 404 w1)
         | Inr requestBody \<Rightarrow>
             WriteGitToHttp world w1
               \<lparr>procInput = Some requestBody,
                args = [''upload-pack'', ''--stateless-rpc'', repoPath]\<rparr>)"

definition receivePack :: "World \<Rightarrow> Smithy \<Rightarrow> Request \<Rightarrow> ResponseWriter \<Rightarrow> outcome" where
  "receivePack world sc r w =
     (let repoName = GetParam r ''repo'';
          (repo, exists) = FindRepo sc repoName;
          repoPath = Path repo @ [];
          w1 = SetContentType ''application/x-git-receive-pack-result'' w
      in case ReqBody r of
           Inl err \<Rightarrow> Exited (WriteHeader 404 w1)
         | Inr requestBody \<Rightarrow>
             WriteGitToHttp world w1
               \<lparr>procInput = Some requestBody,
                args = [''receive-pack'', ''--stateless-rpc'', repoPath]\<rparr>)"

section \<open>Notions used in the statements\<close>

text \<open>
  For a sequence of \<^verbatim>\<open>Next\<close> results: the items returned before the first error, and
  that first error (\<open>None\<close> when the sequence runs to its end, where \<^verbatim>\<open>Next\<close>
  returns \<^verbatim>\<open>io.EOF\<close>).
\<close>

fun yielded :: "('e + 'a) list \<Rightarrow> 'a list" where
  "yielded [] = []"
| "yielded (Inl e # it) = []"
| "yielded (Inr b # it) = b # yielded it"

fun first_error :: "('e + 'a) list \<Rightarrow> 'e option" where
  "first_error [] = None"
| "first_error (Inl e # it) = Some e"
| "first_error (Inr b # it) = first_error it"

text \<open>The response a handler has written, however it ended.\<close>

definition response :: "outcome \<Rightarrow> ResponseWriter" where
  "response out = (case out of Returned w \<Rightarrow> w | Panicked w \<Rightarrow> w | Exited w \<Rightarrow> w)"

text \<open>The number a string of lower-case hexadecimal digits denotes.\<close>

definition digit_value :: "char \<Rightarrow> nat" where
  "digit_value c = length (takeWhile (\<lambda>d. d \<noteq> c) ''0123456789abcdef'')"

definition hex_value :: "string \<Rightarrow> nat" where
  "hex_value s = foldl (\<lambda>a c. 16 * a + digit_value c) 0 s"

text \<open>
  A text contains the given parts in order when it splits into the first part, somewhere,
  followed by a rest that contains the remaining parts in order. \<open>in_order\<close> decides
  this by taking the leftmost occurrence of each part in turn.
\<close>

fun after_first :: "string \<Rightarrow> string \<Rightarrow> string option" where
  "after_first part [] = (if part = [] then Some [] else None)"
| "after_first part (c # s) =
     (if take (length part) (c # s) = part then Some (drop (length part) (c # s))
      else after_first part s)"

fun in_order :: "string list \<Rightarrow> string \<Rightarrow> bool" where
  "in_order [] s = True"
| "in_order (p # ps) s = (case after_first p s of None \<Rightarrow> False | Some rest \<Rightarrow> in_order ps rest)"

fun occurs_in_order :: "string list \<Rightarrow> string \<Rightarrow> bool" where
  "occurs_in_order [] s = True"
| "occurs_in_order (p # ps) s = (\<exists>a rest. s = a @ p @ rest \<and> occurs_in_order ps rest)"

text \<open>
  The handle \<^verbatim>\<open>LoadAllRepositories\<close> builds for a directory entry, when the entry opens
  as a repository.
\<close>

definition opened :: "World \<Rightarrow> string \<Rightarrow> string \<rightharpoonup> RepositoryWithName" where
  "opened world root name =
     (case PlainOpen world (PathJoin world root name) of
        Inl err \<Rightarrow> None
      | Inr g \<Rightarrow> Some \<lparr>Name = name, Path = PathJoin world root name, Repository = Some g\<rparr>)"

section \<open>An example installation\<close>

text \<open>
  A repository with a root commit and one child commit that adds the file \<^verbatim>\<open>notes\<close>,
  served from \<^verbatim>\<open>/srv/git\<close> next to a plain file and a second repository. The branch
  and log iterators of the repository and the behaviour of the \<^verbatim>\<open>git\<close> subprocess
  are parameters.
\<close>

definition example_author :: Signature where
  "example_author =
     \<lparr>SigName = ''A U Thor'', SigEmail = ''author@example.com'',
      SigWhen = (\<lambda>layout. ''Thu, 7 Apr 2005 22:13:13 +0200'')\<rparr>"

definition example_root :: Commit where
  "example_root =
     \<lparr>Hash = ''1000000000000000000000000000000000000001'', Author = example_author,
      Message = ''initial import'', ParentHashes = [], TreeHash = ''t0''\<rparr>"

definition example_child :: Commit where
  "example_child =
     \<lparr>Hash = ''2000000000000000000000000000000000000002'', Author = example_author,
      Message = ''add notes'', ParentHashes = [''1000000000000000000000000000000000000001''],
      TreeHash = ''t1''\<rparr>"

definition example_repository :: "ReferenceIter \<Rightarrow> CommitIter \<Rightarrow> Repository" where
  "example_repository refs cIter =
     \<lparr>Branches = Inr refs, Tags = Inr refs,
      ResolveRevision = (\<lambda>rev. Inr ''2000000000000000000000000000000000000002''),
      CommitObject = (\<lambda>h.
        if h = ''1000000000000000000000000000000000000001'' then Inr example_root
        else if h = ''2000000000000000000000000000000000000002'' then Inr example_child
        else Inl (Error ''object not found'')),
      TreeObject = (\<lambda>h.
        if h = ''t0'' then Inr [(''README'', ''b0''), (''src/main.go'', ''b1'')]
        else if h = ''t1'' then Inr [(''README'', ''b0''), (''notes'', ''b2''), (''src/main.go'', ''b1'')]
        else Inl (Error ''object not found'')),
      Log = (\<lambda>h. Inr cIter),
      PatchString = (\<lambda>a b. Inr ''diff --git a/notes b/notes\<newline>--- /dev/null\<newline>+++ b/notes\<newline>@@ -0,0 +1 @@\<newline>+hello\<newline>''),
      StatsString = (\<lambda>c. Inr '' notes | 1 +\<newline> 1 file changed, 1 insertion(+)\<newline>'')\<rparr>"

definition branch_ref :: "string \<Rightarrow> Reference" where
  "branch_ref short = \<lparr>RefName = ''refs/heads/'' @ short, RefHash = ''2000000000000000000000000000000000000002''\<rparr>"

definition example_template :: "string \<Rightarrow> H \<Rightarrow> string" where
  "example_template name data = ''<html>'' @ name @ ''</html>''"

definition example_smithy :: Smithy where
  "example_smithy =
     \<lparr>Root = ''/srv/git'', Title = ''Projects'', Description = ''Repositories'',
      repos = [''alpha.git'' \<mapsto>
        \<lparr>Name = ''alpha.git'', Path = ''/srv/git/alpha.git'',
         Repository = Some (example_repository [Inr (branch_ref ''main'')] [])\<rparr>],
      template = example_template\<rparr>"

definition example_request :: "string \<Rightarrow> string \<Rightarrow> string \<Rightarrow> Request" where
  "example_request repo ident service =
     \<lparr>Params = (\<lambda>k. if k = ''repo'' then repo
                     else if k = ''hash'' \<or> k = ''ref'' then ident else []),
      QueryService = service, ReqBody = Inr ''0000''\<rparr>"

definition git_silent :: Subprocess where
  "git_silent = \<lparr>StdoutPipeErr = None, StartErr = None, Output = [], CopyErr = None\<rparr>"

definition git_missing :: Subprocess where
  "git_missing =
     \<lparr>StdoutPipeErr = None,
      StartErr = Some (Error ''exec: git: executable file not found in $PATH''),
      Output = [], CopyErr = None\<rparr>"

definition example_world :: "Subprocess \<Rightarrow> World" where
  "example_world p =
     \<lparr>ReadDir = (\<lambda>d. Inr [''alpha.git'', ''notes.txt'', ''beta.git'']),
      PlainOpen = (\<lambda>p. if p = ''/srv/git/notes.txt'' then Inl (Error ''repository does not exist'')
                         else Inr (example_repository [] [])),
      PathJoin = (\<lambda>a b. a @ ''/'' @ b),
      Git = (\<lambda>argv input. p)\<rparr>"

section \<open>The reference resolver\<close>

lemma ReferenceCollector_loop_sorted:
  "snd (ReferenceCollector_loop it refs) = None \<Longrightarrow>
   sorted (map RefName (fst (ReferenceCollector_loop it refs)))"
  by (induction it refs rule: ReferenceCollector_loop.induct)
     (auto simp: sort_ReferenceByName_def split: if_splits)

lemma ReferenceCollector_loop_eq:
  "ReferenceCollector_loop it refs =
     (case first_error it of
        None \<Rightarrow> (sort_ReferenceByName (refs @ yielded it), None)
      | Some e \<Rightarrow> if e = EOF then (sort_ReferenceByName (refs @ yielded it), None)
                  else (refs @ yielded it, Some e))"
  by (induction it refs rule: ReferenceCollector_loop.induct) (auto split: option.splits)

lemma ReferenceCollector_sorted:
  "snd (ReferenceCollector it) = None \<Longrightarrow> sorted (map RefName (fst (ReferenceCollector it)))"
  unfolding ReferenceCollector_def by (rule ReferenceCollector_loop_sorted)

lemma ReferenceCollector_error:
  "first_error it = Some e \<Longrightarrow> e \<noteq> EOF \<Longrightarrow> ReferenceCollector it = (yielded it, Some e)"
  by (simp add: ReferenceCollector_def ReferenceCollector_loop_eq)

lemma ListBranches_sorted:
  "snd (ListBranches r) = None \<Longrightarrow> sorted (map RefName (fst (ListBranches r)))"
  by (cases "Branches r") (simp_all add: ListBranches_def ReferenceCollector_sorted)

lemma ListTags_sorted:
  "snd (ListTags r) = None \<Longrightarrow> sorted (map RefName (fst (ListTags r)))"
  by (cases "Tags r") (simp_all add: ListTags_def ReferenceCollector_sorted)

text \<open>
  Claim C9, as the code has it. The sequence returned by \<^verbatim>\<open>ListBranches\<close> and by
  \<^verbatim>\<open>ListTags\<close> is sorted by full reference name whenever the call returns no error.
  When the iteration ends in an error other than \<^verbatim>\<open>io.EOF\<close>, the references
  returned so far come back in iteration order, unsorted, together with that error.
\<close>

theorem ListBranches_sorted_unless_error:
  "(snd (ListBranches r) = None \<longrightarrow> sorted (map RefName (fst (ListBranches r)))) \<and>
   (snd (ListTags r) = None \<longrightarrow> sorted (map RefName (fst (ListTags r)))) \<and>
   (\<forall>it e. Branches r = Inr it \<and> first_error it = Some e \<and> e \<noteq> EOF \<longrightarrow>
      ListBranches r = (yielded it, Some e)) \<and>
   (\<forall>it e. Tags r = Inr it \<and> first_error it = Some e \<and> e \<noteq> EOF \<longrightarrow>
      ListTags r = (yielded it, Some e))"
  using ListBranches_sorted [of r] ListTags_sorted [of r]
  by (simp add: ListBranches_def ListTags_def ReferenceCollector_error)

text \<open>
  The branches zeta and alpha, enumerated in that order without error, are returned
  as alpha, zeta; followed by a read error they are returned as zeta, alpha with the
  error.
\<close>

theorem ListBranches_sorted_unless_error_witness:
  "ListBranches (example_repository [Inr (branch_ref ''zeta''), Inr (branch_ref ''alpha'')] []) =
     ([branch_ref ''alpha'', branch_ref ''zeta''], None) \<and>
   sorted (map RefName (fst (ListBranches (example_repository [Inr (branch_ref ''zeta''), Inr (branch_ref ''alpha'')] [])))) \<and>
   sorted (map RefName (fst (ListTags (example_repository [Inr (branch_ref ''zeta''), Inr (branch_ref ''alpha'')] [])))) \<and>
   first_error [Inr (branch_ref ''zeta''), Inr (branch_ref ''alpha''), Inl (Error ''unexpected EOF'')] =
     Some (Error ''unexpected EOF'') \<and>
   ListBranches (example_repository
       [Inr (branch_ref ''zeta''), Inr (branch_ref ''alpha''), Inl (Error ''unexpected EOF'')] []) =
     ([branch_ref ''zeta'', branch_ref ''alpha''], Some (Error ''unexpected EOF'')) \<and>
   ListTags (example_repository
       [Inr (branch_ref ''zeta''), Inr (branch_ref ''alpha''), Inl (Error ''unexpected EOF'')] []) =
     ([branch_ref ''zeta'', branch_ref ''alpha''], Some (Error ''unexpected EOF''))"
  using ListBranches_sorted_unless_error
    [of "example_repository [Inr (branch_ref ''zeta''), Inr (branch_ref ''alpha'')] []"]
    ListBranches_sorted_unless_error
    [of "example_repository
       [Inr (branch_ref ''zeta''), Inr (branch_ref ''alpha''), Inl (Error ''unexpected EOF'')] []"]
  by (simp add: ListBranches_def ListTags_def ReferenceCollector_def sort_ReferenceByName_def
      example_repository_def branch_ref_def)

text \<open>
  Claim C9 as stated (sorted also when the iteration ends in an error) fails: zeta,
  alpha and then a read error give the unsorted zeta, alpha.
\<close>

theorem ListBranches_unsorted_on_error:
  "\<not> sorted (map RefName (fst (ListBranches
      (example_repository
         [Inr (branch_ref ''zeta''), Inr (branch_ref ''alpha''), Inl (Error ''unexpected EOF'')] []))))"
  by (simp add: ListBranches_def ReferenceCollector_def example_repository_def branch_ref_def)

lemma runes_ascii: "\<forall>c\<in>set p. (of_char c :: nat) < 128 \<Longrightarrow> runes p = map of_char p"
  by (induction p) (simp_all add: runes.simps(2) DecodeRune_def)

lemma AppendRune_ascii: "(of_char c :: nat) < 128 \<Longrightarrow> AppendRune (of_char c) = [c]"
  by (simp add: AppendRune_def)

lemma token_ascii:
  "\<forall>c\<in>set p. (of_char c :: nat) < 128 \<Longrightarrow> concat (map AppendRune (map of_char p)) = p"
  by (induction p) (simp_all add: AppendRune_ascii)

lemma takeWhile_all: "\<forall>x\<in>set xs. P x \<Longrightarrow> takeWhile P xs = xs"
  by (induction xs) simp_all

lemma Sscanf_s_ascii:
  assumes "rest \<noteq> []"
    and "\<forall>c\<in>set rest. (of_char c :: nat) < 128 \<and> \<not> isSpace (of_char c)"
  shows "Sscanf_s literal (literal @ rest) = Some rest"
proof -
  obtain c cs where r: "rest = c # cs" using assms(1) by (cases rest) auto
  have ru: "runes rest = of_char c # map of_char cs" using assms(2) r by (simp add: runes_ascii)
  have c: "\<not> isSpace (of_char c)" using assms(2) r by simp
  then have c10: "(of_char c :: nat) \<noteq> 10" and c13: "(of_char c :: nat) \<noteq> 13"
    by (auto simp: isSpace_def)
  have sk: "SkipSpace (runes rest) = Some (of_char c # map of_char cs)"
    unfolding ru using c c10 c13 by simp
  have "takeWhile (\<lambda>r. \<not> isSpace r) (map of_char rest) = map of_char rest"
    using assms(2) by (intro takeWhile_all) auto
  then have tw: "takeWhile (\<lambda>r. \<not> isSpace r) (of_char c # map of_char cs) = map of_char rest"
    by (simp add: r)
  have tk: "concat (map AppendRune (map of_char rest)) = rest"
    using token_ascii [of rest] assms(2) by simp
  have "Sscanf_s literal (literal @ rest) =
      Some (concat (map AppendRune (takeWhile (\<lambda>r. \<not> isSpace r) (of_char c # map of_char cs))))"
    by (simp add: Sscanf_s_def sk)
  then show ?thesis by (simp only: tw tk)
qed

text \<open>
  A branch name of ASCII characters without white space is the full name without its
  \<^verbatim>\<open>refs/heads/\<close> prefix.
\<close>

lemma Short_ascii:
  assumes "rest \<noteq> []"
    and "\<forall>c\<in>set rest. (of_char c :: nat) < 128 \<and> \<not> isSpace (of_char c)"
  shows "Short (''refs/heads/'' @ rest) = rest"
proof -
  have h: "Sscanf_s ''refs/heads/'' (''refs/heads/'' @ rest) = Some rest"
    by (rule Sscanf_s_ascii [OF assms])
  have r: "Sscanf_s ''refs/remotes/'' (''refs/heads/'' @ rest) = None"
    by (simp add: Sscanf_s_def)
  show ?thesis using h r by (simp add: Short_def RefRevParseRules_def split: option.splits)
qed

lemma Short_examples:
  "Short ''refs/heads/main'' = ''main''"
  "Short ''refs/heads/master'' = ''master''"
  "Short ''refs/heads/dev'' = ''dev''"
  "Short ''refs/heads/zeta'' = ''zeta''"
  "Short ''refs/heads/alpha'' = ''alpha''"
  using Short_ascii [of "''main''"] Short_ascii [of "''master''"] Short_ascii [of "''dev''"]
    Short_ascii [of "''zeta''"] Short_ascii [of "''alpha''"]
  by (simp_all add: isSpace_def)

lemma AppendRune_a: "AppendRune 97 = ''a''"
  using AppendRune_ascii [of "CHR ''a''"] by simp

text \<open>
  The name of the branch a, no-break space (U+00A0, the bytes C2 A0), b is cut at the
  white space.
\<close>

lemma Short_white_space:
  "Short (''refs/heads/a'' @ [CHR 0xC2, CHR 0xA0] @ ''b'') = ''a''"
  by (simp add: Short_def RefRevParseRules_def Sscanf_s_def runes.simps(2) DecodeRune_def
      isSpace_def AppendRune_a)

lemma Short_branch:
  "RefName b = ''refs/heads/'' @ Short (RefName b) \<Longrightarrow>
   Short (RefName b) = s \<longleftrightarrow> RefName b = ''refs/heads/'' @ s"
  by (metis same_append_eq)

lemma findMainBranch_loop_find:
  "findMainBranch_loop branches =
     (case find (\<lambda>b. Short (RefName b) = ''main'' \<or> Short (RefName b) = ''master'') branches of
        None \<Rightarrow> [] | Some b \<Rightarrow> Short (RefName b))"
  by (induction branches) simp_all

lemma findMainBranch_loop_sorted:
  "sorted (map RefName branches) \<Longrightarrow>
   \<forall>b\<in>set branches. RefName b = ''refs/heads/'' @ Short (RefName b) \<Longrightarrow>
   findMainBranch_loop branches =
     (if ''refs/heads/main'' \<in> RefName ` set branches then ''main''
      else if ''refs/heads/master'' \<in> RefName ` set branches then ''master'' else '''')"
proof (induction branches)
  case Nil
  then show ?case by simp
next
  case (Cons br brs)
  have pre: "RefName br = ''refs/heads/'' @ Short (RefName br)" using Cons.prems(2) by simp
  have sm: "Short (RefName br) = ''main'' \<longleftrightarrow> RefName br = ''refs/heads/main''"
    using Short_branch [OF pre, of "''main''"] by simp
  have sM: "Short (RefName br) = ''master'' \<longleftrightarrow> RefName br = ''refs/heads/master''"
    using Short_branch [OF pre, of "''master''"] by simp
  have later: "\<forall>n\<in>RefName ` set brs. RefName br \<le> n" using Cons.prems(1) by auto
  have IH: "findMainBranch_loop brs =
     (if ''refs/heads/main'' \<in> RefName ` set brs then ''main''
      else if ''refs/heads/master'' \<in> RefName ` set brs then ''master'' else '''')"
    using Cons by simp
  show ?case
  proof (cases "RefName br = ''refs/heads/main''")
    case True
    then show ?thesis using sm sM by simp
  next
    case nmain: False
    show ?thesis
    proof (cases "RefName br = ''refs/heads/master''")
      case True
      have "''refs/heads/main'' \<notin> RefName ` set brs"
      proof
        assume "''refs/heads/main'' \<in> RefName ` set brs"
        then have "RefName br \<le> ''refs/heads/main''" using later by blast
        then show False using True by simp
      qed
      then show ?thesis using True sm sM by simp
    next
      case False
      then show ?thesis using nmain IH sm sM by simp
    qed
  qed
qed

lemma findMainBranch_in_list_order:
  "findMainBranch repo =
     (if fst (ListBranches repo) = [] then ([], None, Some (Error ''no branches found''))
      else let branch =
                 (case find (\<lambda>b. Short (RefName b) = ''main'' \<or> Short (RefName b) = ''master'')
                         (fst (ListBranches repo)) of
                    Some b \<Rightarrow> Short (RefName b)
                  | None \<Rightarrow> Short (RefName (hd (fst (ListBranches repo)))))
           in (case ResolveRevision repo branch of
                 Inl err \<Rightarrow> (branch, None, Some err)
               | Inr revision \<Rightarrow> (branch, Some revision, None)))"
proof (cases "fst (ListBranches repo)")
  case Nil
  then show ?thesis by (simp add: findMainBranch_def)
next
  case (Cons b bs)
  then have ne: "fst (ListBranches repo) \<noteq> []" by simp
  have nth0: "fst (ListBranches repo) ! 0 = hd (fst (ListBranches repo))"
    using ne by (simp add: hd_conv_nth)
  have found: "find (\<lambda>b. Short (RefName b) = ''main'' \<or> Short (RefName b) = ''master'')
      (fst (ListBranches repo)) = Some x \<Longrightarrow> Short (RefName x) \<noteq> []" for x
    by (auto simp: find_Some_iff)
  show ?thesis unfolding findMainBranch_def Let_def findMainBranch_loop_find nth0
    using ne found by (auto split: option.splits)
qed

lemma findMainBranch_sorted_policy:
  assumes "ListBranches repo = (branches, None)"
    and "\<forall>b\<in>set branches. RefName b = ''refs/heads/'' @ Short (RefName b)"
  shows "sorted (map RefName branches) \<and>
     findMainBranch repo =
     (if branches = [] then ([], None, Some (Error ''no branches found''))
      else let branch = (if ''refs/heads/main'' \<in> RefName ` set branches then ''main''
                         else if ''refs/heads/master'' \<in> RefName ` set branches then ''master''
                         else Short (RefName (hd branches)))
           in (case ResolveRevision repo branch of
                 Inl err \<Rightarrow> (branch, None, Some err)
               | Inr revision \<Rightarrow> (branch, Some revision, None)))"
proof -
  have srt: "sorted (map RefName branches)"
    using ListBranches_sorted [of repo] assms(1) by simp
  have loop: "findMainBranch_loop branches =
     (if ''refs/heads/main'' \<in> RefName ` set branches then ''main''
      else if ''refs/heads/master'' \<in> RefName ` set branches then ''master'' else '''')"
    by (rule findMainBranch_loop_sorted [OF srt assms(2)])
  show ?thesis
  proof (cases branches)
    case Nil
    then show ?thesis using assms(1) by (simp add: findMainBranch_def)
  next
    case (Cons b bs)
    then have ne: "branches \<noteq> []" by simp
    have nth0: "branches ! 0 = hd branches" using ne by (simp add: hd_conv_nth)
    have bs: "fst (ListBranches repo) = branches" using assms(1) by simp
    show ?thesis unfolding findMainBranch_def bs Let_def loop nth0
      using ne srt by simp
  qed
qed

text \<open>
  Claim C4, as the code has it. First part: when the enumeration of the branches returns
  no error and every branch name is \<^verbatim>\<open>refs/heads/\<close> followed by what \<^verbatim>\<open>Short()\<close> makes
  of it (\<^verbatim>\<open>Short()\<close> cuts a name at Unicode white space), the list is sorted and
  \<^verbatim>\<open>findMainBranch\<close> fails with "no branches found" if the list is empty; otherwise it
  chooses main if a branch of that name exists, else master if one exists, else the
  first branch of the sorted list, and returns that name with the result of resolving it
  (the revision, or the resolver's error). Second part: the error of the enumeration is
  discarded. Whatever list \<^verbatim>\<open>ListBranches\<close> returns, sorted or not, the choice is made
  from it in its order: "no branches found" for the empty list, else the short name of the
  first branch whose short name is main or master, else the short name of the first
  branch. Third part: after an iteration error that list is the references returned before
  the error, in iteration order; after a failed \<^verbatim>\<open>Branches()\<close> it is empty.
\<close>

theorem findMainBranch_policy:
  "(\<forall>branches.
      ListBranches repo = (branches, None) \<and>
      (\<forall>b\<in>set branches. RefName b = ''refs/heads/'' @ Short (RefName b)) \<longrightarrow>
      sorted (map RefName branches) \<and>
      findMainBranch repo =
        (if branches = [] then ([], None, Some (Error ''no branches found''))
         else let branch = (if ''refs/heads/main'' \<in> RefName ` set branches then ''main''
                            else if ''refs/heads/master'' \<in> RefName ` set branches then ''master''
                            else Short (RefName (hd branches)))
              in (case ResolveRevision repo branch of
                    Inl err \<Rightarrow> (branch, None, Some err)
                  | Inr revision \<Rightarrow> (branch, Some revision, None)))) \<and>
   (\<forall>branches err.
      ListBranches repo = (branches, err) \<longrightarrow>
      findMainBranch repo =
        (if branches = [] then ([], None, Some (Error ''no branches found''))
         else let branch =
                    (case find (\<lambda>b. Short (RefName b) = ''main'' \<or> Short (RefName b) = ''master'')
                            branches of
                       Some b \<Rightarrow> Short (RefName b)
                     | None \<Rightarrow> Short (RefName (hd branches)))
              in (case ResolveRevision repo branch of
                    Inl err \<Rightarrow> (branch, None, Some err)
                  | Inr revision \<Rightarrow> (branch, Some revision, None)))) \<and>
   (\<forall>it e. Branches repo = Inr it \<and> first_error it = Some e \<and> e \<noteq> EOF \<longrightarrow>
      ListBranches repo = (yielded it, Some e)) \<and>
   (\<forall>e. Branches repo = Inl e \<longrightarrow>
      findMainBranch repo = ([], None, Some (Error ''no branches found'')))"
proof -
  have 1: "\<forall>branches.
      ListBranches repo = (branches, None) \<and>
      (\<forall>b\<in>set branches. RefName b = ''refs/heads/'' @ Short (RefName b)) \<longrightarrow>
      sorted (map RefName branches) \<and>
      findMainBranch repo =
        (if branches = [] then ([], None, Some (Error ''no branches found''))
         else let branch = (if ''refs/heads/main'' \<in> RefName ` set branches then ''main''
                            else if ''refs/heads/master'' \<in> RefName ` set branches then ''master''
                            else Short (RefName (hd branches)))
              in (case ResolveRevision repo branch of
                    Inl err \<Rightarrow> (branch, None, Some err)
                  | Inr revision \<Rightarrow> (branch, Some revision, None)))"
    using findMainBranch_sorted_policy [of repo] by blast
  have 2: "\<forall>branches err.
      ListBranches repo = (branches, err) \<longrightarrow>
      findMainBranch repo =
        (if branches = [] then ([], None, Some (Error ''no branches found''))
         else let branch =
                    (case find (\<lambda>b. Short (RefName b) = ''main'' \<or> Short (RefName b) = ''master'')
                            branches of
                       Some b \<Rightarrow> Short (RefName b)
                     | None \<Rightarrow> Short (RefName (hd branches)))
              in (case ResolveRevision repo branch of
                    Inl err \<Rightarrow> (branch, None, Some err)
                  | Inr revision \<Rightarrow> (branch, Some revision, None)))"
  proof (intro allI impI)
    fix branches err
    assume "ListBranches repo = (branches, err)"
    then have bs: "fst (ListBranches repo) = branches" by simp
    show "findMainBranch repo =
        (if branches = [] then ([], None, Some (Error ''no branches found''))
         else let branch =
                    (case find (\<lambda>b. Short (RefName b) = ''main'' \<or> Short (RefName b) = ''master'')
                            branches of
                       Some b \<Rightarrow> Short (RefName b)
                     | None \<Rightarrow> Short (RefName (hd branches)))
              in (case ResolveRevision repo branch of
                    Inl err \<Rightarrow> (branch, None, Some err)
                  | Inr revision \<Rightarrow> (branch, Some revision, None)))"
      using findMainBranch_in_list_order [of repo] unfolding bs .
  qed
  have 3: "\<forall>it e. Branches repo = Inr it \<and> first_error it = Some e \<and> e \<noteq> EOF \<longrightarrow>
      ListBranches repo = (yielded it, Some e)"
    by (simp add: ListBranches_def ReferenceCollector_error)
  have 4: "\<forall>e. Branches repo = Inl e \<longrightarrow>
      findMainBranch repo = ([], None, Some (Error ''no branches found''))"
    by (simp add: findMainBranch_def ListBranches_def)
  show ?thesis using 1 2 3 4 by (intro conjI)
qed

text \<open>
  With the branches zeta and alpha the default branch is alpha. When the iterator returns
  master, main and then a read error, the list is master, main and the choice is master.
  When \<^verbatim>\<open>Branches()\<close> itself fails there are no branches to choose from.
\<close>

theorem findMainBranch_policy_witness:
  "ListBranches (example_repository [Inr (branch_ref ''zeta''), Inr (branch_ref ''alpha'')] []) =
     ([branch_ref ''alpha'', branch_ref ''zeta''], None) \<and>
   findMainBranch (example_repository [Inr (branch_ref ''zeta''), Inr (branch_ref ''alpha'')] []) =
     (''alpha'', Some ''2000000000000000000000000000000000000002'', None) \<and>
   ListBranches (example_repository
       [Inr (branch_ref ''master''), Inr (branch_ref ''main''), Inl (Error ''unexpected EOF'')] []) =
     ([branch_ref ''master'', branch_ref ''main''], Some (Error ''unexpected EOF'')) \<and>
   findMainBranch (example_repository
       [Inr (branch_ref ''master''), Inr (branch_ref ''main''), Inl (Error ''unexpected EOF'')] []) =
     (''master'', Some ''2000000000000000000000000000000000000002'', None) \<and>
   findMainBranch ((example_repository [] [])\<lparr>Branches := Inl (Error ''permission denied'')\<rparr>) =
     ([], None, Some (Error ''no branches found''))"
proof -
  let ?r = "example_repository [Inr (branch_ref ''zeta''), Inr (branch_ref ''alpha'')] []"
  let ?it = "[Inr (branch_ref ''master''), Inr (branch_ref ''main''), Inl (Error ''unexpected EOF'')]"
  let ?q = "example_repository ?it []"
  let ?f = "(example_repository [] [])\<lparr>Branches := Inl (Error ''permission denied'')\<rparr>"
  have l: "ListBranches ?r = ([branch_ref ''alpha'', branch_ref ''zeta''], None)"
    by (simp add: ListBranches_def ReferenceCollector_def sort_ReferenceByName_def
        example_repository_def branch_ref_def)
  have p: "\<forall>b\<in>set [branch_ref ''alpha'', branch_ref ''zeta''].
      RefName b = ''refs/heads/'' @ Short (RefName b)"
    by (simp add: branch_ref_def Short_examples)
  have a: "findMainBranch ?r = (''alpha'', Some ''2000000000000000000000000000000000000002'', None)"
    using findMainBranch_policy [of ?r, THEN conjunct1, rule_format, OF conjI [OF l p]]
    by (simp add: branch_ref_def Short_examples example_repository_def)
  have bq: "Branches ?q = Inr ?it \<and> first_error ?it = Some (Error ''unexpected EOF'') \<and>
      Error ''unexpected EOF'' \<noteq> EOF"
    by (simp add: example_repository_def)
  have lq: "ListBranches ?q = (yielded ?it, Some (Error ''unexpected EOF''))"
    by (rule findMainBranch_policy [of ?q, THEN conjunct2, THEN conjunct2, THEN conjunct1,
        rule_format, OF bq])
  have q: "findMainBranch ?q = (''master'', Some ''2000000000000000000000000000000000000002'', None)"
    using findMainBranch_policy [of ?q, THEN conjunct2, THEN conjunct1, rule_format, OF lq]
    by (simp add: branch_ref_def Short_examples example_repository_def)
  have bf: "Branches ?f = Inl (Error ''permission denied'')" by simp
  have f: "findMainBranch ?f = ([], None, Some (Error ''no branches found''))"
    by (rule findMainBranch_policy [of ?f, THEN conjunct2, THEN conjunct2, THEN conjunct2,
        rule_format, OF bf])
  show ?thesis using l a lq q f by simp
qed

text \<open>
  Claim C4 as stated fails in two ways. After an enumeration error, which
  \<^verbatim>\<open>findMainBranch\<close> discards, master, main and then a read error give master, although
  the branch main was enumerated. And with the single branch a, no-break space, b, whose
  enumeration succeeds, the name returned is a, which is not the name of a branch and
  does not resolve.
\<close>

theorem findMainBranch_not_policy:
  "fst (findMainBranch (example_repository
      [Inr (branch_ref ''master''), Inr (branch_ref ''main''), Inl (Error ''unexpected EOF'')] [])) = ''master'' \<and>
   branch_ref ''main'' \<in> set (fst (ListBranches (example_repository
      [Inr (branch_ref ''master''), Inr (branch_ref ''main''), Inl (Error ''unexpected EOF'')] []))) \<and>
   ListBranches ((example_repository
      [Inr (branch_ref (''a'' @ [CHR 0xC2, CHR 0xA0] @ ''b''))] [])
        \<lparr>ResolveRevision := (\<lambda>name. if name = ''a'' @ [CHR 0xC2, CHR 0xA0] @ ''b''
                                   then Inr ''2000000000000000000000000000000000000002''
                                   else Inl (Error ''reference not found''))\<rparr>) =
     ([branch_ref (''a'' @ [CHR 0xC2, CHR 0xA0] @ ''b'')], None) \<and>
   findMainBranch ((example_repository
      [Inr (branch_ref (''a'' @ [CHR 0xC2, CHR 0xA0] @ ''b''))] [])
        \<lparr>ResolveRevision := (\<lambda>name. if name = ''a'' @ [CHR 0xC2, CHR 0xA0] @ ''b''
                                   then Inr ''2000000000000000000000000000000000000002''
                                   else Inl (Error ''reference not found''))\<rparr>) =
     (''a'', None, Some (Error ''reference not found''))"
  using Short_white_space
  by (simp add: findMainBranch_def ListBranches_def ReferenceCollector_def
      sort_ReferenceByName_def example_repository_def branch_ref_def Short_examples)

text \<open>The branch sets of the spec's examples, and a repository without branches.\<close>

lemma findMainBranch_examples:
  "fst (findMainBranch (example_repository [Inr (branch_ref ''main''), Inr (branch_ref ''dev'')] [])) = ''main''"
  "fst (findMainBranch (example_repository [Inr (branch_ref ''master''), Inr (branch_ref ''dev'')] [])) = ''master''"
  "fst (findMainBranch (example_repository [Inr (branch_ref ''zeta''), Inr (branch_ref ''alpha'')] [])) = ''alpha''"
  "findMainBranch (example_repository [] []) = ([], None, Some (Error ''no branches found''))"
  by (simp_all add: findMainBranch_def ListBranches_def ReferenceCollector_def
      sort_ReferenceByName_def example_repository_def branch_ref_def Short_examples)

section \<open>The Smart HTTP bridge\<close>

text \<open>
  Claim C1 fails on the code. When the standard output pipe cannot be opened or the
  subprocess does not start, \<^verbatim>\<open>WriteGitToHttp\<close> calls \<^verbatim>\<open>WriteHeader(404)\<close> and then
  \<^verbatim>\<open>log.Fatal\<close>: the serving process exits, it does not go on to serve other requests.
\<close>

theorem WriteGitToHttp_start_failure_exits:
  assumes "StdoutPipeErr (Git world (args c) (procInput c)) \<noteq> None \<or>
           StartErr (Git world (args c) (procInput c)) \<noteq> None"
  shows "WriteGitToHttp world w c = Exited (WriteHeader 404 w)"
  using assms by (auto simp: WriteGitToHttp_def Let_def split: option.splits)

text \<open>
  An upload-pack request while the \<^verbatim>\<open>git\<close> executable is missing ends the process.
\<close>

theorem WriteGitToHttp_start_failure_exits_witness:
  "WriteGitToHttp (example_world git_missing) NewResponseWriter
     \<lparr>procInput = Some ''0000'', args = [''upload-pack'', ''--stateless-rpc'', ''/srv/git/alpha.git'']\<rparr> =
   Exited \<lparr>ContentType = None, Location = None, Status = Some 404, Body = []\<rparr>"
  using WriteGitToHttp_start_failure_exits [of "example_world git_missing"
      "\<lparr>procInput = Some ''0000'', args = [''upload-pack'', ''--stateless-rpc'', ''/srv/git/alpha.git'']\<rparr>"
      NewResponseWriter]
  by (simp add: example_world_def git_missing_def NewResponseWriter_def WriteHeader_def)

lemma hex_upload: "Sprintf_04x (length ''# service=git-upload-pack'' + offset) = ''001e''"
  by (simp add: Sprintf_04x_def offset_def hex.simps hexdigit_def numeral_2_eq_2)

text \<open>
  On the info/refs path the advertisement has been written before the subprocess is
  started, so the status line already says 200 when the process exits.
\<close>

lemma getInfoRefs_start_failure:
  "getInfoRefs (example_world git_missing) example_smithy
     (example_request ''alpha.git'' [] ''git-upload-pack'') NewResponseWriter =
   Exited \<lparr>ContentType = Some ''application/x-git-upload-pack-advertisement'',
     Location = None, Status = Some 200,
     Body = ''001e# service=git-upload-pack\<newline>0000''\<rparr>"
  by (simp add: getInfoRefs_def FindRepo_def example_smithy_def example_request_def GetParam_def
      example_world_def git_missing_def WriteGitToHttp_def NewResponseWriter_def Write_def
      WriteHeader_def SetContentType_def hex_upload [simplified] Let_def)

text \<open>
  Claim C8 fails on the code for the Smart HTTP endpoints. For a repository name that
  is not in the registry, \<^verbatim>\<open>getInfoRefs\<close>, \<^verbatim>\<open>uploadPack\<close> and \<^verbatim>\<open>receivePack\<close> discard
  the flag returned by \<^verbatim>\<open>FindRepo\<close> and go on with the empty path of the zero handle:
  none of them renders the not-found page.
\<close>

theorem smart_http_unknown_repository:
  assumes "repos sc (GetParam r ''repo'') = None"
  shows "getInfoRefs world sc r w =
       WriteGitToHttp world
         (Write ''0000''
           (Write (Sprintf_04x (length (''# service=git-'' @ strings_Replace1 (QueryService r) ''git-'' []) + offset)
                     @ ''# service=git-'' @ strings_Replace1 (QueryService r) ''git-'' [] @ ''\<newline>'')
             (SetContentType (''application/x-git-'' @ strings_Replace1 (QueryService r) ''git-'' [] @ ''-advertisement'') w)))
         \<lparr>procInput = None,
          args = [strings_Replace1 (QueryService r) ''git-'' [], ''--stateless-rpc'', ''--advertise-refs'', []]\<rparr> \<and>
     uploadPack world sc r w =
       (case ReqBody r of
          Inl err \<Rightarrow> Exited (WriteHeader 404 (SetContentType ''application/x-git-upload-pack-result'' w))
        | Inr requestBody \<Rightarrow>
            WriteGitToHttp world (SetContentType ''application/x-git-upload-pack-result'' w)
              \<lparr>procInput = Some requestBody, args = [''upload-pack'', ''--stateless-rpc'', []]\<rparr>) \<and>
     receivePack world sc r w =
       (case ReqBody r of
          Inl err \<Rightarrow> Exited (WriteHeader 404 (SetContentType ''application/x-git-receive-pack-result'' w))
        | Inr requestBody \<Rightarrow>
            WriteGitToHttp world (SetContentType ''application/x-git-receive-pack-result'' w)
              \<lparr>procInput = Some requestBody, args = [''receive-pack'', ''--stateless-rpc'', []]\<rparr>)"
  using assms
  by (simp add: getInfoRefs_def uploadPack_def receivePack_def FindRepo_def
      zero_RepositoryWithName_def Let_def split: sum.splits)

text \<open>
  A request for info/refs of an unknown repository is answered with status 200 and the
  advertisement; an upload-pack request for it runs the subprocess as well.
\<close>

theorem smart_http_unknown_repository_witness:
  "getInfoRefs (example_world git_silent) example_smithy
     (example_request ''nosuch.git'' [] ''git-upload-pack'') NewResponseWriter =
   Returned \<lparr>ContentType = Some ''application/x-git-upload-pack-advertisement'',
     Location = None, Status = Some 200,
     Body = ''001e# service=git-upload-pack\<newline>0000''\<rparr> \<and>
   uploadPack (example_world git_silent) example_smithy
     (example_request ''nosuch.git'' [] []) NewResponseWriter =
   Returned \<lparr>ContentType = Some ''application/x-git-upload-pack-result'',
     Location = None, Status = None, Body = []\<rparr>"
  using smart_http_unknown_repository [of example_smithy
      "example_request ''nosuch.git'' [] ''git-upload-pack''" "example_world git_silent" NewResponseWriter]
    smart_http_unknown_repository [of example_smithy
      "example_request ''nosuch.git'' [] []" "example_world git_silent" NewResponseWriter]
  by (simp add: example_smithy_def example_request_def GetParam_def example_world_def
      git_silent_def WriteGitToHttp_def NewResponseWriter_def Write_def WriteHeader_def
      SetContentType_def hex_upload [simplified])

text \<open>The browsing handlers do render the not-found page for an unknown repository.\<close>

lemma browse_unknown_repository:
  assumes "repos sc (GetParam r ''repo'') = None"
  shows "PatchView sc r w = Returned (Render sc w ''error'' (NotFound ''Repository not found''))"
    and "LogView sc r w = Returned (Render sc w ''error'' (NotFound ''Repository not found''))"
  using assms by (simp_all add: PatchView_def LogView_def FindRepo_def)

lemma digit_value_hexdigit: "d < 16 \<Longrightarrow> digit_value (hexdigit d) = d"
proof -
  assume "d < 16"
  then have "d = 0 \<or> d = 1 \<or> d = 2 \<or> d = 3 \<or> d = 4 \<or> d = 5 \<or> d = 6 \<or> d = 7 \<or> d = 8 \<or>
      d = 9 \<or> d = 10 \<or> d = 11 \<or> d = 12 \<or> d = 13 \<or> d = 14 \<or> d = 15" by presburger
  then show ?thesis by (auto simp: digit_value_def hexdigit_def)
qed

lemma hexdigit_in: "d < 16 \<Longrightarrow> hexdigit d \<in> set ''0123456789abcdef''"
  unfolding hexdigit_def by (rule nth_mem) simp

lemma hex_value_append: "hex_value (s @ [c]) = 16 * hex_value s + digit_value c"
  by (simp add: hex_value_def)

lemma hex_value_hex: "hex_value (hex n) = n"
proof (induction n rule: hex.induct)
  case (1 n)
  show ?case
  proof (cases "n < 16")
    case True
    then show ?thesis by (simp add: hex.simps hex_value_def digit_value_hexdigit)
  next
    case False
    then have "hex n = hex (n div 16) @ [hexdigit (n mod 16)]" by (simp add: hex.simps)
    then show ?thesis using 1 False
      by (simp add: hex_value_append digit_value_hexdigit)
  qed
qed

lemma hex_digits: "set (hex n) \<subseteq> set ''0123456789abcdef''"
proof (induction n rule: hex.induct)
  case (1 n)
  show ?case
  proof (cases "n < 16")
    case True
    then show ?thesis using hexdigit_in [of n] by (simp add: hex.simps)
  next
    case False
    then have "hex n = hex (n div 16) @ [hexdigit (n mod 16)]" by (simp add: hex.simps)
    then show ?thesis using 1 False hexdigit_in [of "n mod 16"] by simp
  qed
qed

lemma length_hex_le: "0 < k \<Longrightarrow> n < 16 ^ k \<Longrightarrow> length (hex n) \<le> k"
proof (induction n arbitrary: k rule: hex.induct)
  case (1 n)
  show ?case
  proof (cases "n < 16")
    case True
    then show ?thesis using "1.prems" by (simp add: hex.simps)
  next
    case False
    obtain j where j: "k = Suc j" using "1.prems"(1) by (cases k) auto
    have "j \<noteq> 0" using False "1.prems"(2) j by (cases j) auto
    then have j0: "0 < j" by simp
    have "n div 16 < 16 ^ j" using "1.prems"(2) j by (simp add: div_less_iff_less_mult mult.commute)
    then have "length (hex (n div 16)) \<le> j" using "1.IH" [OF False j0] by simp
    moreover have "hex n = hex (n div 16) @ [hexdigit (n mod 16)]" using False by (simp add: hex.simps)
    ultimately show ?thesis using j by simp
  qed
qed

lemma hex_value_zeros: "hex_value (replicate k CHR ''0'' @ s) = hex_value s"
proof -
  have dv0: "digit_value CHR ''0'' = 0" by (simp add: digit_value_def)
  have "foldl (\<lambda>a c. 16 * a + digit_value c) 0 (replicate k CHR ''0'') = 0"
    by (induction k) (simp_all add: dv0)
  then show ?thesis by (simp add: hex_value_def)
qed

lemma Sprintf_04x_value: "hex_value (Sprintf_04x n) = n"
  by (simp add: Sprintf_04x_def hex_value_zeros hex_value_hex)

lemma Sprintf_04x_digits: "set (Sprintf_04x n) \<subseteq> set ''0123456789abcdef''"
  using hex_digits [of n] by (auto simp: Sprintf_04x_def)

lemma Sprintf_04x_length: "4 \<le> length (Sprintf_04x n)"
  by (simp add: Sprintf_04x_def)

lemma Sprintf_04x_length4: "n < 65536 \<Longrightarrow> length (Sprintf_04x n) = 4"
  using length_hex_le [of 4 n] by (simp add: Sprintf_04x_def)

lemma WriteGitToHttp_Body:
  "\<exists>rest. Body (response (WriteGitToHttp world w c)) = Body w @ rest"
  by (simp add: WriteGitToHttp_def response_def Let_def WriteHeader_def Write_def
      split: option.splits)

lemma Body_Write: "Body (Write bytes w) = Body w @ bytes"
  by (simp add: Write_def WriteHeader_def)

lemma Body_SetContentType: "Body (SetContentType v w) = Body w"
  by (simp add: SetContentType_def)

text \<open>
  Claim C3, as the code has it. With the verb being the service parameter without its
  first \<^verbatim>\<open>git-\<close>, what \<^verbatim>\<open>getInfoRefs\<close> writes begins with the lower-case hexadecimal
  encoding of the byte length of the line \<^verbatim>\<open># service=git-<verb>\<close> plus 5, padded with
  zeros to at least four digits, followed by that line, a newline and the flush packet
  \<^verbatim>\<open>0000\<close>. The prefix has exactly four digits when the verb is shorter than 65517
  bytes.
\<close>

theorem getInfoRefs_advertisement:
  "let verb = strings_Replace1 (QueryService r) ''git-'' [];
       line = ''# service=git-'' @ verb;
       n = length line + 5
   in (\<exists>rest. Body (response (getInfoRefs world sc r w)) =
         Body w @ Sprintf_04x n @ line @ ''\<newline>'' @ ''0000'' @ rest) \<and>
      hex_value (Sprintf_04x n) = n \<and>
      set (Sprintf_04x n) \<subseteq> set ''0123456789abcdef'' \<and>
      4 \<le> length (Sprintf_04x n) \<and>
      (length verb < 65517 \<longrightarrow> length (Sprintf_04x n) = 4)"
proof -
  define verb where "verb = strings_Replace1 (QueryService r) ''git-'' []"
  define line where "line = ''# service=git-'' @ verb"
  define n where "n = length line + 5"
  define w3 where "w3 = Write ''0000'' (Write (Sprintf_04x n @ line @ ''\<newline>'')
      (SetContentType (''application/x-git-'' @ verb @ ''-advertisement'') w))"
  define c where "c = \<lparr>procInput = None,
      args = [verb, ''--stateless-rpc'', ''--advertise-refs'', Path (fst (FindRepo sc (GetParam r ''repo'')))]\<rparr>"
  have run: "getInfoRefs world sc r w = WriteGitToHttp world w3 c"
    by (simp add: getInfoRefs_def Let_def split_beta verb_def line_def n_def w3_def c_def offset_def)
  have b3: "Body w3 = Body w @ Sprintf_04x n @ line @ ''\<newline>'' @ ''0000''"
    by (simp add: w3_def Body_Write Body_SetContentType)
  obtain rest where "Body (response (WriteGitToHttp world w3 c)) = Body w3 @ rest"
    using WriteGitToHttp_Body by blast
  then have body: "\<exists>rest. Body (response (getInfoRefs world sc r w)) =
      Body w @ Sprintf_04x n @ line @ ''\<newline>'' @ ''0000'' @ rest"
    using run b3 by simp
  have len: "length verb < 65517 \<longrightarrow> length (Sprintf_04x n) = 4"
    using Sprintf_04x_length4 [of n] by (simp add: n_def line_def)
  show ?thesis
    using body len Sprintf_04x_value [of n] Sprintf_04x_digits [of n] Sprintf_04x_length [of n]
    unfolding Let_def verb_def [symmetric] line_def [symmetric] n_def [symmetric]
    by blast
qed

text \<open>
  For \<^verbatim>\<open>git-upload-pack\<close> the response is \<^verbatim>\<open>001e# service=git-upload-pack\<close>, a newline
  and \<^verbatim>\<open>0000\<close>; 0x1e is 25 + 5.
\<close>

theorem getInfoRefs_advertisement_witness:
  "Body (response (getInfoRefs (example_world git_silent) example_smithy
      (example_request ''alpha.git'' [] ''git-upload-pack'') NewResponseWriter)) =
     ''001e# service=git-upload-pack\<newline>0000'' \<and>
   hex_value ''001e'' = length ''# service=git-upload-pack'' + 5"
  using getInfoRefs_advertisement [of "example_request ''alpha.git'' [] ''git-upload-pack''"
      "example_world git_silent" example_smithy NewResponseWriter]
  by (simp add: example_smithy_def example_request_def GetParam_def example_world_def
      git_silent_def getInfoRefs_def FindRepo_def WriteGitToHttp_def NewResponseWriter_def Write_def WriteHeader_def
      SetContentType_def response_def hex_upload [simplified] hex_value_def digit_value_def)

lemma hex_65536: "Sprintf_04x 65536 = ''10000''"
  by (simp add: Sprintf_04x_def hex.simps hexdigit_def)

text \<open>
  Claim C3 as stated (a 4-digit prefix for every service verb) fails for a verb of 65517
  bytes: the line has 65531 bytes, and 65536 is printed with five digits.
\<close>

theorem getInfoRefs_long_verb_prefix:
  "Body (response (getInfoRefs (example_world git_silent) example_smithy
      (example_request ''alpha.git'' [] (''git-'' @ replicate 65517 CHR ''a'')) NewResponseWriter)) =
     ''10000'' @ ''# service=git-'' @ replicate 65517 CHR ''a'' @ ''\<newline>0000''"
  by (simp add: example_smithy_def example_request_def GetParam_def example_world_def
      git_silent_def getInfoRefs_def FindRepo_def WriteGitToHttp_def NewResponseWriter_def Write_def WriteHeader_def
      SetContentType_def response_def offset_def hex_65536 Let_def)

section \<open>The patch view\<close>

text \<open>
  Claim C5 fails on the code. For a commit without parents \<^verbatim>\<open>PatchView\<close> calls
  \<^verbatim>\<open>sc.Error(w, err)\<close> with the nil error left by the successful commit lookup, and
  \<^verbatim>\<open>err.Error()\<close> panics: no error result is written.
\<close>

theorem PatchView_root_commit_panics:
  assumes "repos sc (GetParam r ''repo'') = Some repo"
    and "GetParam r ''hash'' \<noteq> []"
    and "Repository repo = Some g"
    and "CommitObject g (NewHash (GetParam r ''hash'')) = Inr commitObj"
    and "NumParents commitObj = 0"
  shows "PatchView sc r w = Panicked w"
  using assms by (simp add: PatchView_def FindRepo_def Smithy_Error_def)

text \<open>The patch of the root commit of the example repository.\<close>

theorem PatchView_root_commit_panics_witness:
  "PatchView example_smithy
     (example_request ''alpha.git'' ''1000000000000000000000000000000000000001'' [])
     NewResponseWriter = Panicked NewResponseWriter"
  using PatchView_root_commit_panics [of example_smithy
      "example_request ''alpha.git'' ''1000000000000000000000000000000000000001'' []"
      "\<lparr>Name = ''alpha.git'', Path = ''/srv/git/alpha.git'',
         Repository = Some (example_repository [Inr (branch_ref ''main'')] [])\<rparr>"
      "example_repository [Inr (branch_ref ''main'')] []" example_root NewResponseWriter]
  by (simp add: example_smithy_def example_request_def GetParam_def NewHash_def
      example_repository_def NumParents_def example_root_def)

lemma after_first_Some: "after_first p s = Some rest \<Longrightarrow> \<exists>a. s = a @ p @ rest"
proof (induction s)
  case Nil
  then show ?case by (simp split: if_splits)
next
  case (Cons c s)
  show ?case
  proof (cases "take (length p) (c # s) = p")
    case True
    then have "rest = drop (length p) (c # s)" using Cons.prems by simp
    then have "c # s = [] @ p @ rest" using True by (metis append_Nil append_take_drop_id)
    then show ?thesis by blast
  next
    case False
    then have "after_first p s = Some rest" using Cons.prems by simp
    then obtain a where "s = a @ p @ rest" using Cons.IH by blast
    then have "c # s = (c # a) @ p @ rest" by simp
    then show ?thesis by blast
  qed
qed

lemma after_first_leftmost:
  "s = a @ p @ rest \<Longrightarrow> \<exists>b. after_first p s = Some (b @ rest)"
proof (induction a arbitrary: s)
  case Nil
  show ?case
  proof (cases s)
    case Nil
    then show ?thesis using Nil.prems by simp
  next
    case (Cons c t)
    from Nil.prems have tk: "take (length p) s = p" and dr: "drop (length p) s = rest"
      by simp_all
    have "after_first p (c # t) = Some rest"
      using tk dr unfolding Cons by simp
    then show ?thesis using Cons by (metis append_Nil)
  qed
next
  case (Cons x a)
  then have s: "s = x # (a @ p @ rest)" by simp
  show ?case
  proof (cases "take (length p) s = p")
    case True
    have "drop (length p) s = take (length (x # a)) (drop (length p) s) @ drop (length (x # a)) (drop (length p) s)"
      by (rule append_take_drop_id [symmetric])
    moreover have "drop (length (x # a)) (drop (length p) s) = rest"
      using Cons.prems by (simp add: add.commute)
    ultimately have "\<exists>b. drop (length p) s = b @ rest" by metis
    then show ?thesis using True s by auto
  next
    case False
    then have "after_first p s = after_first p (a @ p @ rest)" using s by simp
    then show ?thesis using Cons.IH [of "a @ p @ rest"] by simp
  qed
qed

lemma occurs_in_order_prepend: "occurs_in_order ps s \<Longrightarrow> occurs_in_order ps (b @ s)"
proof (cases ps)
  case Nil
  then show ?thesis by simp
next
  case (Cons p qs)
  assume "occurs_in_order ps s"
  then obtain a rest where "s = a @ p @ rest" "occurs_in_order qs rest" using Cons by auto
  then have "b @ s = (b @ a) @ p @ rest \<and> occurs_in_order qs rest" by simp
  then show ?thesis using Cons by (simp del: append_assoc) blast
qed

lemma in_order_iff: "in_order ps s \<longleftrightarrow> occurs_in_order ps s"
proof (induction ps arbitrary: s)
  case Nil
  then show ?case by simp
next
  case (Cons p ps)
  show ?case
  proof
    assume "in_order (p # ps) s"
    then obtain rest where r: "after_first p s = Some rest" "in_order ps rest"
      by (auto split: option.splits)
    then obtain a where "s = a @ p @ rest" using after_first_Some by blast
    then show "occurs_in_order (p # ps) s" using r(2) Cons.IH by auto
  next
    assume "occurs_in_order (p # ps) s"
    then obtain a rest where ar: "s = a @ p @ rest" "occurs_in_order ps rest" by auto
    then obtain b where b: "after_first p s = Some (b @ rest)" using after_first_leftmost by blast
    have "occurs_in_order ps (b @ rest)" using ar(2) by (rule occurs_in_order_prepend)
    then show "in_order (p # ps) s" using b Cons.IH by simp
  qed
qed

lemma occurs_in_order_step:
  "occurs_in_order ps rest \<Longrightarrow> occurs_in_order (p # ps) (a @ p @ rest)"
  by auto

lemma occurs_in_order_concat:
  "occurs_in_order [p1, p2, p3, p4, p5, p6, p7]
     (p1 @ s1 @ p2 @ s2 @ p3 @ s3 @ p4 @ s4 @ p5 @ s5 @ p6 @ s6 @ p7)"
proof -
  have "occurs_in_order [] []" by simp
  then have "occurs_in_order [p7] (s6 @ p7 @ [])" by (rule occurs_in_order_step)
  then have "occurs_in_order [p6, p7] (s5 @ p6 @ s6 @ p7 @ [])" by (rule occurs_in_order_step)
  then have "occurs_in_order [p5, p6, p7] (s4 @ p5 @ s5 @ p6 @ s6 @ p7 @ [])"
    by (rule occurs_in_order_step)
  then have "occurs_in_order [p4, p5, p6, p7] (s3 @ p4 @ s4 @ p5 @ s5 @ p6 @ s6 @ p7 @ [])"
    by (rule occurs_in_order_step)
  then have "occurs_in_order [p3, p4, p5, p6, p7]
      (s2 @ p3 @ s3 @ p4 @ s4 @ p5 @ s5 @ p6 @ s6 @ p7 @ [])"
    by (rule occurs_in_order_step)
  then have "occurs_in_order [p2, p3, p4, p5, p6, p7]
      (s1 @ p2 @ s2 @ p3 @ s3 @ p4 @ s4 @ p5 @ s5 @ p6 @ s6 @ p7 @ [])"
    by (rule occurs_in_order_step)
  then have "occurs_in_order [p1, p2, p3, p4, p5, p6, p7]
      ([] @ p1 @ s1 @ p2 @ s2 @ p3 @ s3 @ p4 @ s4 @ p5 @ s5 @ p6 @ s6 @ p7 @ [])"
    by (rule occurs_in_order_step)
  then show ?thesis by (simp only: append_Nil append_Nil2)
qed

text \<open>
  Claim C6, as the code has it. For a commit with one parent whose parent, patch and
  stats can be read, \<^verbatim>\<open>PatchView\<close> writes the envelope, which consists of the line
  starting with "From " that carries the hash and the fixed time stamp, the "From:"
  line with the author, the "Date:" line with the author time, the "Subject: [PATCH]"
  line with the message, the separator line "---", the diffstat summary and the
  unified diff, in this order: the separator comes before the diffstat summary.
\<close>

theorem PatchView_envelope_order:
  assumes "repos sc (GetParam r ''repo'') = Some repo"
    and "GetParam r ''hash'' \<noteq> []"
    and "Repository repo = Some g"
    and "CommitObject g (NewHash (GetParam r ''hash'')) = Inr commitObj"
    and "NumParents commitObj = 1"
    and "Parent g commitObj 0 = Inr parentCommit"
    and "PatchString g parentCommit commitObj = Inr patch"
    and "StatsString g commitObj = Inr stats"
  shows "PatchView sc r w = Returned (Write (PatchView_envelope commitObj stats patch) w) \<and>
     PatchView_envelope commitObj stats patch =
       ''From '' @ Hash commitObj @ '' Mon Sep 17 00:00:00 2001\<newline>'' @
       ''From: '' @ SigName (Author commitObj) @ '' <'' @ SigEmail (Author commitObj) @ ''>\<newline>'' @
       ''Date: '' @ SigWhen (Author commitObj) ''Mon, 2 Jan 2006 15:04:05 -0700'' @ ''\<newline>'' @
       ''Subject: [PATCH] '' @ Message commitObj @ ''\<newline>'' @
       ''---\<newline>'' @ stats @ ''\<newline>'' @ patch \<and>
     occurs_in_order
       [''From '' @ Hash commitObj @ '' Mon Sep 17 00:00:00 2001'',
        ''From: '' @ SigName (Author commitObj) @ '' <'' @ SigEmail (Author commitObj) @ ''>'',
        ''Date: '' @ SigWhen (Author commitObj) ''Mon, 2 Jan 2006 15:04:05 -0700'',
        ''Subject: [PATCH] '' @ Message commitObj,
        ''---'', stats, patch]
       (PatchView_envelope commitObj stats patch)"
proof -
  have run: "PatchView sc r w = Returned (Write (PatchView_envelope commitObj stats patch) w)"
    using assms by (simp add: PatchView_def FindRepo_def)
  have env: "PatchView_envelope commitObj stats patch =
       (''From '' @ Hash commitObj @ '' Mon Sep 17 00:00:00 2001'') @ ''\<newline>'' @
       (''From: '' @ SigName (Author commitObj) @ '' <'' @ SigEmail (Author commitObj) @ ''>'') @ ''\<newline>'' @
       (''Date: '' @ SigWhen (Author commitObj) ''Mon, 2 Jan 2006 15:04:05 -0700'') @ ''\<newline>'' @
       (''Subject: [PATCH] '' @ Message commitObj) @ ''\<newline>'' @
       ''---'' @ ''\<newline>'' @ stats @ ''\<newline>'' @ patch"
    by (simp add: PatchView_envelope_def commitFormatDate_def)
  have ord: "occurs_in_order
       [''From '' @ Hash commitObj @ '' Mon Sep 17 00:00:00 2001'',
        ''From: '' @ SigName (Author commitObj) @ '' <'' @ SigEmail (Author commitObj) @ ''>'',
        ''Date: '' @ SigWhen (Author commitObj) ''Mon, 2 Jan 2006 15:04:05 -0700'',
        ''Subject: [PATCH] '' @ Message commitObj,
        ''---'', stats, patch]
       (PatchView_envelope commitObj stats patch)"
    unfolding env by (rule occurs_in_order_concat)
  have env': "PatchView_envelope commitObj stats patch =
       ''From '' @ Hash commitObj @ '' Mon Sep 17 00:00:00 2001\<newline>'' @
       ''From: '' @ SigName (Author commitObj) @ '' <'' @ SigEmail (Author commitObj) @ ''>\<newline>'' @
       ''Date: '' @ SigWhen (Author commitObj) ''Mon, 2 Jan 2006 15:04:05 -0700'' @ ''\<newline>'' @
       ''Subject: [PATCH] '' @ Message commitObj @ ''\<newline>'' @
       ''---\<newline>'' @ stats @ ''\<newline>'' @ patch"
    by (simp add: PatchView_envelope_def commitFormatDate_def)
  show ?thesis using run env' ord by blast
qed

lemma example_PatchView:
  "PatchView example_smithy
     (example_request ''alpha.git'' ''2000000000000000000000000000000000000002'' [])
     NewResponseWriter =
   Returned \<lparr>ContentType = None, Location = None, Status = Some 200,
     Body = ''From 2000000000000000000000000000000000000002 Mon Sep 17 00:00:00 2001\<newline>From: A U Thor <author@example.com>\<newline>Date: Thu, 7 Apr 2005 22:13:13 +0200\<newline>Subject: [PATCH] add notes\<newline>---\<newline> notes | 1 +\<newline> 1 file changed, 1 insertion(+)\<newline>\<newline>diff --git a/notes b/notes\<newline>--- /dev/null\<newline>+++ b/notes\<newline>@@ -0,0 +1 @@\<newline>+hello\<newline>''\<rparr>"
  by (simp add: PatchView_def FindRepo_def example_smithy_def example_request_def GetParam_def
      NewHash_def example_repository_def example_child_def example_author_def NumParents_def
      Parent_def example_root_def PatchView_envelope_def NewResponseWriter_def Write_def
      WriteHeader_def commitFormatDate_def)

text \<open>The patch of the child commit of the example repository.\<close>

theorem PatchView_envelope_order_witness:
  "PatchView example_smithy
     (example_request ''alpha.git'' ''2000000000000000000000000000000000000002'' [])
     NewResponseWriter =
   Returned (Write (PatchView_envelope example_child
       '' notes | 1 +\<newline> 1 file changed, 1 insertion(+)\<newline>''
       ''diff --git a/notes b/notes\<newline>--- /dev/null\<newline>+++ b/notes\<newline>@@ -0,0 +1 @@\<newline>+hello\<newline>'')
     NewResponseWriter)"
  using PatchView_envelope_order [of example_smithy
      "example_request ''alpha.git'' ''2000000000000000000000000000000000000002'' []"
      "\<lparr>Name = ''alpha.git'', Path = ''/srv/git/alpha.git'',
         Repository = Some (example_repository [Inr (branch_ref ''main'')] [])\<rparr>"
      "example_repository [Inr (branch_ref ''main'')] []" example_child example_root
      "''diff --git a/notes b/notes\<newline>--- /dev/null\<newline>+++ b/notes\<newline>@@ -0,0 +1 @@\<newline>+hello\<newline>''"
      "'' notes | 1 +\<newline> 1 file changed, 1 insertion(+)\<newline>''" NewResponseWriter]
  by (simp add: example_smithy_def example_request_def GetParam_def NewHash_def
      example_repository_def NumParents_def example_child_def Parent_def)

text \<open>
  Claim C6 as stated (the diffstat summary before the separator) fails: in the patch of
  the child commit nothing after the diffstat summary is a "---" followed by the whole
  diff.
\<close>

theorem PatchView_separator_before_diffstat:
  "\<not> occurs_in_order
     [''From 2000000000000000000000000000000000000002 Mon Sep 17 00:00:00 2001'',
      ''From: A U Thor <author@example.com>'',
      ''Date: Thu, 7 Apr 2005 22:13:13 +0200'',
      ''Subject: [PATCH] add notes'',
      '' notes | 1 +\<newline> 1 file changed, 1 insertion(+)\<newline>'',
      ''---'',
      ''diff --git a/notes b/notes\<newline>--- /dev/null\<newline>+++ b/notes\<newline>@@ -0,0 +1 @@\<newline>+hello\<newline>'']
     (Body (response (PatchView example_smithy
        (example_request ''alpha.git'' ''2000000000000000000000000000000000000002'' [])
        NewResponseWriter)))"
  unfolding example_PatchView in_order_iff [symmetric]
  by (simp add: response_def)

section \<open>The changes of a root commit\<close>





text \<open>
  The child commit adds one file; a commit with the tree of its parent changes nothing.
\<close>

lemma GetChanges_examples:
  "GetChanges (example_repository [] []) example_child =
     Inr [\<lparr>From = None, To = Some (''notes'', ''b2'')\<rparr>]"
  "GetChanges (example_repository [] []) (example_child\<lparr>TreeHash := ''t0''\<rparr>) = Inr []"
  by (simp_all add: GetChanges_def Parent_def CommitTree_def example_child_def example_root_def
      example_repository_def DiffTree_def)

section \<open>The log view\<close>

lemma LogView_loop_eq:
  "LogView_loop n cIter commits =
     (case first_error (take n cIter) of
        None \<Rightarrow> Some (commits @ map mkSmithyCommit (yielded (take n cIter)))
      | Some e \<Rightarrow> if e = EOF then Some (commits @ map mkSmithyCommit (yielded (take n cIter)))
                  else None)"
  by (induction n cIter commits rule: LogView_loop.induct) (auto split: option.splits)

text \<open>
  Claim C10. Once the repository, the revision and the commit iterator have been
  obtained, \<^verbatim>\<open>LogView\<close> panics on the nil commit exactly when, among the first 500
  results of \<^verbatim>\<open>Next\<close>, the first error is not \<^verbatim>\<open>io.EOF\<close>; otherwise it renders the
  commits returned before \<^verbatim>\<open>io.EOF\<close> or before the page is full.
\<close>

theorem LogView_iterator_error:
  assumes "repos sc (GetParam r ''repo'') = Some repo"
    and "Repository repo = Some g"
    and "GetParam r ''ref'' \<noteq> []"
    and "ResolveRevision g (GetParam r ''ref'') = Inr revision"
    and "Log g revision = Inr cIter"
  shows "LogView sc r w =
     (if \<exists>e. first_error (take PAGE_SIZE cIter) = Some e \<and> e \<noteq> EOF then Panicked w
      else Returned (Render sc w ''log''
        [(''RepoName'', StrV (GetParam r ''repo'')), (''RefName'', StrV (GetParam r ''ref'')),
         (''Commits'', CommitsV (map mkSmithyCommit (yielded (take PAGE_SIZE cIter))))]))"
  using assms
  by (auto simp: LogView_def FindRepo_def LogView_loop_eq split: option.splits)

text \<open>An iterator that fails on its second commit makes the handler panic.\<close>

theorem LogView_iterator_error_witness:
  "LogView
     (example_smithy\<lparr>repos := [''alpha.git'' \<mapsto>
        \<lparr>Name = ''alpha.git'', Path = ''/srv/git/alpha.git'',
         Repository = Some (example_repository [] [Inr example_child, Inl (Error ''object not found'')])\<rparr>]\<rparr>)
     (example_request ''alpha.git'' ''main'' []) NewResponseWriter = Panicked NewResponseWriter"
  using LogView_iterator_error [of
      "example_smithy\<lparr>repos := [''alpha.git'' \<mapsto>
        \<lparr>Name = ''alpha.git'', Path = ''/srv/git/alpha.git'',
         Repository = Some (example_repository [] [Inr example_child, Inl (Error ''object not found'')])\<rparr>]\<rparr>"
      "example_request ''alpha.git'' ''main'' []"
      "\<lparr>Name = ''alpha.git'', Path = ''/srv/git/alpha.git'',
         Repository = Some (example_repository [] [Inr example_child, Inl (Error ''object not found'')])\<rparr>"
      "example_repository [] [Inr example_child, Inl (Error ''object not found'')]"
      "''2000000000000000000000000000000000000002''"
      "[Inr example_child, Inl (Error ''object not found'')]" NewResponseWriter]
  by (simp add: example_smithy_def example_request_def GetParam_def example_repository_def PAGE_SIZE_def)

section \<open>Reloading the registry\<close>

lemma LoadAllRepositories_loop_states:
  "m \<subseteq>\<^sub>m opened world root \<Longrightarrow> s \<in> set (LoadAllRepositories_loop world root files m) \<Longrightarrow>
   s \<subseteq>\<^sub>m opened world root \<and> dom s \<subseteq> dom m \<union> set files"
proof (induction files arbitrary: m)
  case Nil
  then show ?case by simp
next
  case (Cons f files)
  show ?case
  proof (cases "PlainOpen world (PathJoin world root f)")
    case (Inl err)
    then have "s \<in> set (LoadAllRepositories_loop world root files m)" using Cons.prems(2) by simp
    then show ?thesis using Cons.IH [OF Cons.prems(1)] by auto
  next
    case (Inr g)
    define m' where "m' = m(f \<mapsto> \<lparr>Name = f, Path = PathJoin world root f, Repository = Some g\<rparr>)"
    have of: "opened world root f = Some \<lparr>Name = f, Path = PathJoin world root f, Repository = Some g\<rparr>"
      using Inr by (simp add: opened_def)
    have m': "m' \<subseteq>\<^sub>m opened world root"
      using Cons.prems(1) of by (auto simp: m'_def map_le_def)
    have dm: "dom m' = insert f (dom m)" by (simp add: m'_def)
    have "s = m' \<or> s \<in> set (LoadAllRepositories_loop world root files m')"
      using Cons.prems(2) Inr by (simp add: m'_def Let_def)
    then show ?thesis
    proof
      assume "s = m'"
      then show ?thesis using m' dm by auto
    next
      assume "s \<in> set (LoadAllRepositories_loop world root files m')"
      then show ?thesis using Cons.IH [OF m'] dm by auto
    qed
  qed
qed

lemma LoadAllRepositories_loop_last:
  "m \<subseteq>\<^sub>m opened world root \<Longrightarrow>
   last (m # LoadAllRepositories_loop world root files m) =
     (\<lambda>name. if name \<in> set files then opened world root name else m name)"
proof (induction files arbitrary: m)
  case Nil
  then show ?case by simp
next
  case (Cons f files)
  show ?case
  proof (cases "PlainOpen world (PathJoin world root f)")
    case (Inl err)
    then have nf: "opened world root f = None" by (simp add: opened_def)
    then have mf: "m f = None" using Cons.prems by (auto simp: map_le_def dom_def)
    have "last (m # LoadAllRepositories_loop world root (f # files) m) =
        last (m # LoadAllRepositories_loop world root files m)" using Inl by simp
    also have "\<dots> = (\<lambda>name. if name \<in> set files then opened world root name else m name)"
      by (rule Cons.IH [OF Cons.prems])
    also have "\<dots> = (\<lambda>name. if name \<in> set (f # files) then opened world root name else m name)"
      using nf mf by auto
    finally show ?thesis .
  next
    case (Inr g)
    define m' where "m' = m(f \<mapsto> \<lparr>Name = f, Path = PathJoin world root f, Repository = Some g\<rparr>)"
    have of: "opened world root f = Some \<lparr>Name = f, Path = PathJoin world root f, Repository = Some g\<rparr>"
      using Inr by (simp add: opened_def)
    have m': "m' \<subseteq>\<^sub>m opened world root"
      using Cons.prems of by (auto simp: m'_def map_le_def)
    have "last (m # LoadAllRepositories_loop world root (f # files) m) =
        last (m' # LoadAllRepositories_loop world root files m')"
      using Inr by (simp add: m'_def Let_def)
    also have "\<dots> = (\<lambda>name. if name \<in> set files then opened world root name else m' name)"
      by (rule Cons.IH [OF m'])
    also have "\<dots> = (\<lambda>name. if name \<in> set (f # files) then opened world root name else m name)"
      using of by (auto simp: m'_def)
    finally show ?thesis .
  qed
qed

lemma LoadAllRepositories_readable:
  assumes "ReadDir world (Root sc) = Inr files"
  shows "LoadAllRepositories world sc =
       (sc\<lparr>repos := (\<lambda>name. if name \<in> set files then opened world (Root sc) name else None)\<rparr>,
        None) \<and>
     hd (LoadAllRepositories_states world sc) = Map.empty \<and>
     last (LoadAllRepositories_states world sc) = repos (fst (LoadAllRepositories world sc)) \<and>
     (\<forall>m\<in>set (LoadAllRepositories_states world sc).
        m \<subseteq>\<^sub>m repos (fst (LoadAllRepositories world sc)))"
proof -
  let ?final = "\<lambda>name. if name \<in> set files then opened world (Root sc) name else None"
  have st: "LoadAllRepositories_states world sc =
      Map.empty # LoadAllRepositories_loop world (Root sc) files Map.empty"
    using assms by (simp add: LoadAllRepositories_states_def)
  have e: "Map.empty \<subseteq>\<^sub>m opened world (Root sc)" by simp
  have lst: "last (LoadAllRepositories_states world sc) = ?final"
    unfolding st by (rule LoadAllRepositories_loop_last [OF e])
  have run: "LoadAllRepositories world sc =
      (sc\<lparr>repos := last (LoadAllRepositories_states world sc)\<rparr>, None)"
    using assms by (simp add: LoadAllRepositories_def)
  have fin: "repos (fst (LoadAllRepositories world sc)) = ?final"
    using run lst by simp
  have sub: "m \<subseteq>\<^sub>m ?final" if "m \<in> set (LoadAllRepositories_states world sc)" for m
  proof (cases "m = Map.empty")
    case True
    then show ?thesis by simp
  next
    case False
    then have "m \<in> set (LoadAllRepositories_loop world (Root sc) files Map.empty)"
      using that st by auto
    then have "m \<subseteq>\<^sub>m opened world (Root sc) \<and> dom m \<subseteq> set files"
      using LoadAllRepositories_loop_states [OF e] by fastforce
    then show ?thesis by (auto simp: map_le_def dom_def)
  qed
  have 1: "LoadAllRepositories world sc = (sc\<lparr>repos := ?final\<rparr>, None)"
    using run lst by simp
  have 2: "hd (LoadAllRepositories_states world sc) = Map.empty" using st by simp
  have 3: "last (LoadAllRepositories_states world sc) = repos (fst (LoadAllRepositories world sc))"
    using lst fin by simp
  have 4: "\<forall>m\<in>set (LoadAllRepositories_states world sc).
      m \<subseteq>\<^sub>m repos (fst (LoadAllRepositories world sc))"
    using sub fin by simp
  show ?thesis using 1 2 3 4 by (intro conjI)
qed

lemma LoadAllRepositories_unreadable:
  assumes "ReadDir world (Root sc) = Inl err"
  shows "LoadAllRepositories world sc = (sc, Some err) \<and> LoadAllRepositories_states world sc = []"
  using assms by (simp add: LoadAllRepositories_def LoadAllRepositories_states_def)

text \<open>
  Claim C2, as the code has it. When the directory can be read,
  \<^verbatim>\<open>LoadAllRepositories\<close> first sets the mapping to the empty map and then inserts one
  handle for every entry that opens. It returns no error and leaves the rest of the
  registry as it was; the mapping it leaves behind holds exactly those handles; every
  value the field takes on the way is a part of that final mapping, and the first of them
  is empty. There is no single swap from the old to the new mapping. When the directory
  cannot be read, the error is returned and the registry, with its mapping, is left as it
  was: the field is not assigned at all.
\<close>

theorem LoadAllRepositories_not_atomic:
  "(\<forall>files. ReadDir world (Root sc) = Inr files \<longrightarrow>
      LoadAllRepositories world sc =
        (sc\<lparr>repos := (\<lambda>name. if name \<in> set files then opened world (Root sc) name else None)\<rparr>,
         None) \<and>
      hd (LoadAllRepositories_states world sc) = Map.empty \<and>
      last (LoadAllRepositories_states world sc) = repos (fst (LoadAllRepositories world sc)) \<and>
      (\<forall>m\<in>set (LoadAllRepositories_states world sc).
         m \<subseteq>\<^sub>m repos (fst (LoadAllRepositories world sc)))) \<and>
   (\<forall>err. ReadDir world (Root sc) = Inl err \<longrightarrow>
      LoadAllRepositories world sc = (sc, Some err) \<and>
      LoadAllRepositories_states world sc = [])"
  using LoadAllRepositories_readable [of world sc] LoadAllRepositories_unreadable [of world sc]
  by blast

text \<open>
  Reloading the example directory takes three steps and ends with the two repositories
  and without the plain file. When the directory cannot be read, the registry keeps the
  repository it had.
\<close>

theorem LoadAllRepositories_not_atomic_witness:
  "length (LoadAllRepositories_states (example_world git_silent) example_smithy) = 3 \<and>
   repos (fst (LoadAllRepositories (example_world git_silent) example_smithy)) ''beta.git'' =
     Some \<lparr>Name = ''beta.git'', Path = ''/srv/git/beta.git'',
           Repository = Some (example_repository [] [])\<rparr> \<and>
   repos (fst (LoadAllRepositories (example_world git_silent) example_smithy)) ''notes.txt'' = None \<and>
   LoadAllRepositories
     ((example_world git_silent)\<lparr>ReadDir := (\<lambda>d. Inl (Error ''no such file or directory''))\<rparr>)
     example_smithy =
     (example_smithy, Some (Error ''no such file or directory'')) \<and>
   LoadAllRepositories_states
     ((example_world git_silent)\<lparr>ReadDir := (\<lambda>d. Inl (Error ''no such file or directory''))\<rparr>)
     example_smithy = []"
proof -
  let ?w = "example_world git_silent"
  let ?u = "(example_world git_silent)\<lparr>ReadDir := (\<lambda>d. Inl (Error ''no such file or directory''))\<rparr>"
  have r: "ReadDir ?w (Root example_smithy) = Inr [''alpha.git'', ''notes.txt'', ''beta.git'']"
    by (simp add: example_world_def)
  have u: "ReadDir ?u (Root example_smithy) = Inl (Error ''no such file or directory'')"
    by simp
  note ok = LoadAllRepositories_not_atomic [of ?w example_smithy, THEN conjunct1, rule_format, OF r]
  note bad = LoadAllRepositories_not_atomic [of ?u example_smithy, THEN conjunct2, rule_format, OF u]
  have len: "length (LoadAllRepositories_states ?w example_smithy) = 3"
    by (simp add: example_world_def example_smithy_def LoadAllRepositories_states_def Let_def)
  have beta: "repos (fst (LoadAllRepositories ?w example_smithy)) ''beta.git'' =
      Some \<lparr>Name = ''beta.git'', Path = ''/srv/git/beta.git'',
            Repository = Some (example_repository [] [])\<rparr>"
    using ok by (simp add: opened_def example_world_def example_smithy_def)
  have nts: "repos (fst (LoadAllRepositories ?w example_smithy)) ''notes.txt'' = None"
    using ok by (simp add: opened_def example_world_def example_smithy_def)
  show ?thesis using len beta nts bad by simp
qed

text \<open>
  Claim C2 as stated (a lookup sees the old or the new mapping in full) fails: the
  repository alpha.git is in the mapping before and after the reload, and a lookup on
  the first value the field takes during the reload does not find it.
\<close>

theorem FindRepo_during_reload:
  "snd (FindRepo example_smithy ''alpha.git'') \<and>
   snd (FindRepo (fst (LoadAllRepositories (example_world git_silent) example_smithy)) ''alpha.git'') \<and>
   \<not> snd (FindRepo
      (example_smithy\<lparr>repos := hd (LoadAllRepositories_states (example_world git_silent) example_smithy)\<rparr>)
      ''alpha.git'')"
  by (simp add: FindRepo_def LoadAllRepositories_def LoadAllRepositories_states_def
      example_world_def example_smithy_def Let_def)

end
